theory Spec2Isabelle
  imports Complex_Main "HOL-Library.AList"
begin

section \<open>Conventions of the embedding\<close>

text \<open>
  The radar/AIS fusion core (\<^verbatim>\<open>src/fusion.py\<close>, \<^verbatim>\<open>src/models.py\<close>) and the linear
  estimator (\<^verbatim>\<open>src/kalman_filter.py\<close>, \<^verbatim>\<open>src/advanced_tracker.py\<close>) are embedded as HOL
  functions.

  \<^item> A Python \<^verbatim>\<open>float\<close> is a \<^typ>\<open>real\<close>: rounding, NaN and infinities are not modelled.
    A \<^verbatim>\<open>datetime\<close> is a \<^typ>\<open>real\<close> number of seconds, and every call of
    \<^verbatim>\<open>datetime.now()\<close> is an explicit argument \<open>now\<close> of the operation that makes it.
  \<^item> A Python \<^verbatim>\<open>dict\<close> is an association list in insertion order: assigning to a key that
    is present replaces the value in place, assigning to a new key appends
    (\<^const>\<open>AList.update\<close>), and \<^verbatim>\<open>del\<close> removes the entry (\<^const>\<open>AList.delete\<close>).
    \<^verbatim>\<open>d.values()\<close> is \<open>map snd d\<close>.
  \<^item> Methods that mutate \<^verbatim>\<open>self\<close> take the object and return the new one.
  \<^item> The optional notification callback and the logger of \<^verbatim>\<open>TargetFusion\<close> are external
    collaborators; they do not touch the state embedded here and are left out.
\<close>

datatype py_error = LinAlgError | KeyError

section \<open>Data model (\<^verbatim>\<open>src/models.py\<close>)\<close>

record RadarTarget =
  rt_target_id :: string
  rt_distance_nm :: real
  rt_bearing_deg :: real
  rt_speed_knots :: real
  rt_course_deg :: real
  rt_target_type :: string
  rt_name :: string
  rt_status :: string
  rt_signal_strength :: real
  rt_timestamp :: real

record AISTarget =
  ais_mmsi :: string
  ais_name :: string
  ais_lat :: real
  ais_lon :: real
  ais_speed_knots :: real
  ais_course_deg :: real
  ais_heading_deg :: int
  ais_ship_type :: string
  ais_imo :: string
  ais_call_sign :: string
  ais_dest :: string
  ais_eta :: string
  ais_timestamp :: real

text \<open>One entry of \<^verbatim>\<open>FusedTarget.history\<close> (a dict with these four keys).\<close>

record history_entry =
  he_lat :: real
  he_lon :: real
  he_speed :: real
  he_timestamp :: real

record FusedTarget =
  ft_fused_id :: string
  ft_radar_target :: "RadarTarget option"
  ft_ais_target :: "AISTarget option"
  ft_source_type :: string
  ft_lat :: real
  ft_lon :: real
  ft_speed_knots :: real
  ft_course_deg :: real
  ft_heading_deg :: int
  ft_confidence :: real
  ft_status :: string
  ft_timestamp :: real
  ft_history :: "history_entry list"

text \<open>
  The dataclass constructor with every optional field at its default; \<open>now\<close> is the value
  of the \<^verbatim>\<open>timestamp\<close> default factory.  The call sites below override fields by record
  update, as the keyword arguments do.
\<close>

definition FusedTarget_new :: "string \<Rightarrow> real \<Rightarrow> FusedTarget" where
  "FusedTarget_new fused_id now =
     \<lparr> ft_fused_id = fused_id, ft_radar_target = None, ft_ais_target = None,
       ft_source_type = ''radar'', ft_lat = 0, ft_lon = 0, ft_speed_knots = 0,
       ft_course_deg = 0, ft_heading_deg = 0, ft_confidence = 1, ft_status = ''tracking'',
       ft_timestamp = now, ft_history = [] \<rparr>"

text \<open>\<^verbatim>\<open>FusedTarget.update\<close>. \<^verbatim>\<open>history[-100:]\<close> keeps the last 100 entries.\<close>

definition FusedTarget_update ::
  "FusedTarget \<Rightarrow> RadarTarget option \<Rightarrow> AISTarget option \<Rightarrow> real \<Rightarrow> FusedTarget" where
  "FusedTarget_update self radar_target ais_target now =
     (let s1 = (case radar_target of
                  None \<Rightarrow> self
                | Some r \<Rightarrow> self\<lparr> ft_radar_target := Some r,
                                 ft_speed_knots := rt_speed_knots r,
                                 ft_course_deg := rt_course_deg r \<rparr>);
          s2 = (case ais_target of
                  None \<Rightarrow> s1
                | Some a \<Rightarrow>
                    (let t1 = s1\<lparr> ft_ais_target := Some a, ft_lat := ais_lat a,
                                   ft_lon := ais_lon a \<rparr>;
                         t2 = (if ais_speed_knots a > 0
                               then t1\<lparr> ft_speed_knots := ais_speed_knots a \<rparr> else t1)
                     in (if ais_heading_deg a > 0
                         then t2\<lparr> ft_heading_deg := ais_heading_deg a \<rparr> else t2)));
          has_radar = (ft_radar_target s2 \<noteq> None);
          has_ais = (ft_ais_target s2 \<noteq> None);
          s3 = (if has_radar \<and> has_ais
                then s2\<lparr> ft_source_type := ''fused'', ft_confidence := 9 / 10 \<rparr>
                else if has_ais
                then s2\<lparr> ft_source_type := ''ais'', ft_confidence := 8 / 10 \<rparr>
                else s2\<lparr> ft_source_type := ''radar'', ft_confidence := 7 / 10 \<rparr>);
          s4 = s3\<lparr> ft_timestamp := now \<rparr>;
          h = ft_history s4 @
                [\<lparr> he_lat = ft_lat s4, he_lon = ft_lon s4, he_speed = ft_speed_knots s4,
                   he_timestamp = ft_timestamp s4 \<rparr>]
      in s4\<lparr> ft_history := (if length h > 100 then drop (length h - 100) h else h) \<rparr>)"

section \<open>Coordinate mathematics (\<^verbatim>\<open>src/fusion.py\<close>)\<close>

definition radians :: "real \<Rightarrow> real" where
  "radians d = d * pi / 180"

text \<open>\<^verbatim>\<open>math.atan2(y, x)\<close> on the reals, by quadrant.\<close>

definition atan2 :: "real \<Rightarrow> real \<Rightarrow> real" where
  "atan2 y x =
     (if 0 < x then arctan (y / x)
      else if x < 0 then (if 0 \<le> y then arctan (y / x) + pi else arctan (y / x) - pi)
      else if 0 < y then pi / 2
      else if y < 0 then - (pi / 2)
      else 0)"

definition radar_to_geo :: "real \<Rightarrow> real \<Rightarrow> real \<Rightarrow> real \<Rightarrow> real \<times> real" where
  "radar_to_geo distance_nm bearing_deg ref_lat ref_lon =
     (let distance_m = distance_nm * 1852;
          distance_deg = distance_m / 111000;
          bearing_rad = radians bearing_deg;
          lat = ref_lat + distance_deg * cos bearing_rad;
          lon = ref_lon + distance_deg * sin bearing_rad / cos (radians ref_lat)
      in (lat, lon))"

definition haversine_distance :: "real \<Rightarrow> real \<Rightarrow> real \<Rightarrow> real \<Rightarrow> real" where
  "haversine_distance lat1 lon1 lat2 lon2 =
     (let R = 6371000;
          lat1_rad = radians lat1;
          lat2_rad = radians lat2;
          delta_lat = radians (lat2 - lat1);
          delta_lon = radians (lon2 - lon1);
          a = (sin (delta_lat / 2))\<^sup>2 + cos lat1_rad * cos lat2_rad * (sin (delta_lon / 2))\<^sup>2;
          c = 2 * atan2 (sqrt a) (sqrt (1 - a))
      in R * c)"

section \<open>The fusion engine (\<^verbatim>\<open>TargetFusion\<close>)\<close>

text \<open>The \<^verbatim>\<open>fusion\<close> section of the configuration: a dict read with \<^verbatim>\<open>.get(key, default)\<close>.\<close>

record FusionConfig =
  cfg_enabled :: "bool option"
  cfg_association_distance_m :: "real option"
  cfg_max_age_seconds :: "real option"
  cfg_tracker :: "string option"

definition dict_get :: "'a option \<Rightarrow> 'a \<Rightarrow> 'a" where
  "dict_get entry dflt = (case entry of None \<Rightarrow> dflt | Some v \<Rightarrow> v)"

record TargetFusion =
  enabled :: bool
  association_distance :: real
  max_age :: real
  radar_targets :: "(string \<times> RadarTarget) list"
  ais_targets :: "(string \<times> AISTarget) list"
  fused_targets :: "(string \<times> FusedTarget) list"
  matched_ais :: "string set"
  radar_origin :: "real \<times> real"

text \<open>
  \<^verbatim>\<open>TargetFusion.__init__\<close>.  The constructor has no \<^verbatim>\<open>raise\<close> and checks none of the
  values it reads: the result is always \<open>Inr\<close>.
\<close>

definition TargetFusion_init :: "FusionConfig \<Rightarrow> py_error + TargetFusion" where
  "TargetFusion_init fusion_config =
     Inr \<lparr> enabled = dict_get (cfg_enabled fusion_config) True,
           association_distance = dict_get (cfg_association_distance_m fusion_config) 100,
           max_age = dict_get (cfg_max_age_seconds fusion_config) 60,
           radar_targets = [], ais_targets = [], fused_targets = [],
           matched_ais = {}, radar_origin = (0, 0) \<rparr>"

definition set_radar_origin :: "TargetFusion \<Rightarrow> real \<Rightarrow> real \<Rightarrow> TargetFusion" where
  "set_radar_origin self lon lat = self\<lparr> radar_origin := (lon, lat) \<rparr>"

text \<open>
  The loop of \<^verbatim>\<open>_find_matching_ais\<close> over \<^verbatim>\<open>self.ais_targets.values()\<close>: a matched MMSI is
  skipped (\<^verbatim>\<open>continue\<close>), the first candidate under the gate is returned.
\<close>

fun find_ais_loop :: "TargetFusion \<Rightarrow> real \<Rightarrow> real \<Rightarrow> AISTarget list \<Rightarrow> AISTarget option" where
  "find_ais_loop self lat lon [] = None"
| "find_ais_loop self lat lon (ais # rest) =
     (if ais_mmsi ais \<in> matched_ais self then find_ais_loop self lat lon rest
      else if haversine_distance lat lon (ais_lat ais) (ais_lon ais) < association_distance self
      then Some ais
      else find_ais_loop self lat lon rest)"

definition find_matching_ais :: "TargetFusion \<Rightarrow> real \<Rightarrow> real \<Rightarrow> AISTarget option" where
  "find_matching_ais self lat lon = find_ais_loop self lat lon (map snd (ais_targets self))"

text \<open>
  The position of a radar contact: \<^verbatim>\<open>radar_origin\<close> is \<open>(lon, lat)\<close>, so the reference
  latitude is its second component.
\<close>

definition radar_geo :: "TargetFusion \<Rightarrow> RadarTarget \<Rightarrow> real \<times> real" where
  "radar_geo self radar =
     radar_to_geo (rt_distance_nm radar) (rt_bearing_deg radar)
       (snd (radar_origin self)) (fst (radar_origin self))"

fun find_radar_loop :: "TargetFusion \<Rightarrow> real \<Rightarrow> real \<Rightarrow> RadarTarget list \<Rightarrow> RadarTarget option" where
  "find_radar_loop self lat lon [] = None"
| "find_radar_loop self lat lon (radar # rest) =
     (case radar_geo self radar of (r_lat, r_lon) \<Rightarrow>
        if haversine_distance lat lon r_lat r_lon < association_distance self
        then Some radar
        else find_radar_loop self lat lon rest)"

definition find_matching_radar :: "TargetFusion \<Rightarrow> real \<Rightarrow> real \<Rightarrow> RadarTarget option" where
  "find_matching_radar self lat lon =
     find_radar_loop self lat lon (map snd (radar_targets self))"

text \<open>Python's \<^verbatim>\<open>a or b\<close> on floats: \<open>a\<close> unless it is zero.\<close>

definition py_or :: "real \<Rightarrow> real \<Rightarrow> real" where
  "py_or a b = (if a \<noteq> 0 then a else b)"

definition fuse_radar_target :: "TargetFusion \<Rightarrow> RadarTarget \<Rightarrow> real \<Rightarrow> TargetFusion" where
  "fuse_radar_target self radar_target now =
     (case radar_geo self radar_target of (lat, lon) \<Rightarrow>
        (case find_matching_ais self lat lon of
           Some matched \<Rightarrow>
             (let fused_id = ''F'' @ ais_mmsi matched;
                  fused = (FusedTarget_new fused_id now)
                    \<lparr> ft_radar_target := Some radar_target, ft_ais_target := Some matched,
                      ft_source_type := ''fused'', ft_lat := lat, ft_lon := lon,
                      ft_speed_knots := py_or (ais_speed_knots matched) (rt_speed_knots radar_target),
                      ft_course_deg := py_or (ais_course_deg matched) (rt_course_deg radar_target),
                      ft_confidence := 9 / 10 \<rparr>
              in self\<lparr> matched_ais := insert (ais_mmsi matched) (matched_ais self),
                       fused_targets := AList.update fused_id fused (fused_targets self) \<rparr>)
         | None \<Rightarrow>
             (let fused_id = ''R'' @ rt_target_id radar_target;
                  fused = (FusedTarget_new fused_id now)
                    \<lparr> ft_radar_target := Some radar_target,
                      ft_source_type := ''radar'', ft_lat := lat, ft_lon := lon,
                      ft_speed_knots := rt_speed_knots radar_target,
                      ft_course_deg := rt_course_deg radar_target,
                      ft_confidence := 7 / 10 \<rparr>
              in self\<lparr> fused_targets := AList.update fused_id fused (fused_targets self) \<rparr>)))"

definition add_radar_target :: "TargetFusion \<Rightarrow> RadarTarget \<Rightarrow> real \<Rightarrow> TargetFusion" where
  "add_radar_target self target now =
     fuse_radar_target
       (self\<lparr> radar_targets := AList.update (rt_target_id target) target (radar_targets self) \<rparr>)
       target now"

definition fuse_ais_only :: "TargetFusion \<Rightarrow> AISTarget \<Rightarrow> real \<Rightarrow> TargetFusion" where
  "fuse_ais_only self ais_target now =
     (case find_matching_radar self (ais_lat ais_target) (ais_lon ais_target) of
        Some matched_radar \<Rightarrow> self
      | None \<Rightarrow>
          (let fused_id = ''A'' @ ais_mmsi ais_target;
               fused = (FusedTarget_new fused_id now)
                 \<lparr> ft_ais_target := Some ais_target,
                   ft_source_type := ''ais'', ft_lat := ais_lat ais_target,
                   ft_lon := ais_lon ais_target,
                   ft_speed_knots := ais_speed_knots ais_target,
                   ft_course_deg := ais_course_deg ais_target,
                   ft_heading_deg := ais_heading_deg ais_target,
                   ft_confidence := 8 / 10 \<rparr>
           in self\<lparr> fused_targets := AList.update fused_id fused (fused_targets self) \<rparr>))"

definition add_ais_target :: "TargetFusion \<Rightarrow> AISTarget \<Rightarrow> real \<Rightarrow> TargetFusion" where
  "add_ais_target self0 target now =
     (let self = self0\<lparr> ais_targets := AList.update (ais_mmsi target) target (ais_targets self0) \<rparr>
      in (case find_matching_radar self (ais_lat target) (ais_lon target) of
            Some matched_radar \<Rightarrow>
              (case radar_geo self matched_radar of (lat, lon) \<Rightarrow>
                 (let fused_id = ''F'' @ ais_mmsi target;
                      fused = (FusedTarget_new fused_id now)
                        \<lparr> ft_radar_target := Some matched_radar, ft_ais_target := Some target,
                          ft_source_type := ''fused'', ft_lat := lat, ft_lon := lon,
                          ft_speed_knots := py_or (ais_speed_knots target) (rt_speed_knots matched_radar),
                          ft_course_deg := py_or (ais_course_deg target) (rt_course_deg matched_radar),
                          ft_confidence := 9 / 10 \<rparr>
                  in self\<lparr> matched_ais := insert (ais_mmsi target) (matched_ais self),
                           fused_targets := AList.update fused_id fused (fused_targets self) \<rparr>))
          | None \<Rightarrow> fuse_ais_only self target now))"

text \<open>
  \<^verbatim>\<open>get_fused_targets\<close>: the first loop collects the identities whose age exceeds
  \<^verbatim>\<open>max_age\<close>, the second deletes them, and the remaining values are returned.
\<close>

fun expired_loop :: "TargetFusion \<Rightarrow> real \<Rightarrow> (string \<times> FusedTarget) list \<Rightarrow> string list" where
  "expired_loop self now [] = []"
| "expired_loop self now ((fid, target) # rest) =
     (if now - ft_timestamp target > max_age self
      then fid # expired_loop self now rest
      else expired_loop self now rest)"

fun delete_loop :: "string list \<Rightarrow> (string \<times> FusedTarget) list \<Rightarrow> (string \<times> FusedTarget) list" where
  "delete_loop [] d = d"
| "delete_loop (fid # rest) d = delete_loop rest (AList.delete fid d)"

definition get_fused_targets :: "TargetFusion \<Rightarrow> real \<Rightarrow> TargetFusion \<times> FusedTarget list" where
  "get_fused_targets self now =
     (let expired = expired_loop self now (fused_targets self);
          self' = self\<lparr> fused_targets := delete_loop expired (fused_targets self) \<rparr>
      in (self', map snd (fused_targets self')))"

text \<open>The public operations, as commands, and the states they reach from a constructed engine.\<close>

datatype fusion_op =
    AddRadar RadarTarget real
  | AddAIS AISTarget real
  | GetFused real
  | SetOrigin real real

fun apply_op :: "TargetFusion \<Rightarrow> fusion_op \<Rightarrow> TargetFusion" where
  "apply_op self (AddRadar target now) = add_radar_target self target now"
| "apply_op self (AddAIS target now) = add_ais_target self target now"
| "apply_op self (GetFused now) = fst (get_fused_targets self now)"
| "apply_op self (SetOrigin lon lat) = set_radar_origin self lon lat"

fun run_ops :: "TargetFusion \<Rightarrow> fusion_op list \<Rightarrow> TargetFusion" where
  "run_ops self [] = self"
| "run_ops self (op # ops) = run_ops (apply_op self op) ops"

inductive reachable :: "TargetFusion \<Rightarrow> bool" where
  constructed: "TargetFusion_init cfg = Inr self \<Longrightarrow> reachable self"
| operation: "reachable self \<Longrightarrow> reachable (apply_op self op)"

text \<open>
  The acceptance tests of the two association searches, as predicates on one candidate:
  an AIS candidate is accepted when its MMSI is unmatched and it lies strictly inside the
  gate; a radar candidate when its converted position lies strictly inside the gate.
\<close>

definition ais_accepted :: "TargetFusion \<Rightarrow> real \<Rightarrow> real \<Rightarrow> AISTarget \<Rightarrow> bool" where
  "ais_accepted self lat lon ais \<longleftrightarrow>
     ais_mmsi ais \<notin> matched_ais self \<and>
     haversine_distance lat lon (ais_lat ais) (ais_lon ais) < association_distance self"

definition radar_accepted :: "TargetFusion \<Rightarrow> real \<Rightarrow> real \<Rightarrow> RadarTarget \<Rightarrow> bool" where
  "radar_accepted self lat lon radar \<longleftrightarrow>
     haversine_distance lat lon (fst (radar_geo self radar)) (snd (radar_geo self radar))
       < association_distance self"

section \<open>Matrices (\<^verbatim>\<open>numpy\<close> arrays of floats)\<close>

text \<open>
  A two-dimensional array is the list of its rows.  The shapes of the arrays of the
  estimators are fixed by their constructors (4x1, 4x4, 2x4, 2x2), so the element-wise
  operations below are only used on operands of equal shape and the products on operands
  that fit.  \<^verbatim>\<open>numpy.linalg.inv\<close> is only applied to the 2x2 innovation covariance; it
  raises \<^verbatim>\<open>LinAlgError\<close> on a singular matrix.
\<close>

type_synonym matrix = "real list list"

definition zeros :: "nat \<Rightarrow> nat \<Rightarrow> matrix" where
  "zeros n m = replicate n (replicate m 0)"

definition eye :: "nat \<Rightarrow> matrix" where
  "eye n = map (\<lambda>i. map (\<lambda>j. if i = j then 1 else 0) [0..<n]) [0..<n]"

definition mat_scale :: "matrix \<Rightarrow> real \<Rightarrow> matrix" where
  "mat_scale A c = map (map (\<lambda>a. a * c)) A"

definition mat_add :: "matrix \<Rightarrow> matrix \<Rightarrow> matrix" where
  "mat_add A B = map2 (map2 (+)) A B"

definition mat_sub :: "matrix \<Rightarrow> matrix \<Rightarrow> matrix" where
  "mat_sub A B = map2 (map2 (-)) A B"

definition matmul :: "matrix \<Rightarrow> matrix \<Rightarrow> matrix" where
  "matmul A B = map (\<lambda>row. map (\<lambda>col. sum_list (map2 (*) row col)) (transpose B)) A"

definition cell :: "matrix \<Rightarrow> nat \<Rightarrow> nat \<Rightarrow> real" where
  "cell A i j = A ! i ! j"

definition set_cell :: "matrix \<Rightarrow> nat \<Rightarrow> nat \<Rightarrow> real \<Rightarrow> matrix" where
  "set_cell A i j v = A[i := (A ! i)[j := v]]"

definition linalg_inv :: "matrix \<Rightarrow> py_error + matrix" where
  "linalg_inv S =
     (case S of
        [[a, b], [c, d]] \<Rightarrow>
          (if a * d - b * c = 0 then Inl LinAlgError
           else Inr [[d / (a * d - b * c), - b / (a * d - b * c)],
                     [- c / (a * d - b * c), a / (a * d - b * c)]])
      | _ \<Rightarrow> Inl LinAlgError)"

section \<open>The linear estimator (\<^verbatim>\<open>src/kalman_filter.py\<close>)\<close>

record KalmanFilter =
  kf_dt :: real
  kf_process_noise :: real
  kf_measurement_noise :: real
  kf_state :: matrix
  kf_P :: matrix
  kf_F :: matrix
  kf_H :: matrix
  kf_Q :: matrix
  kf_R :: matrix
  kf_initialized :: bool

text \<open>
  \<^verbatim>\<open>KalmanFilter.__init__\<close>.  The constructor stores its arguments as they come: it has no
  \<^verbatim>\<open>raise\<close> and no check, so the result is always \<open>Inr\<close>.
\<close>

definition KalmanFilter_init :: "real \<Rightarrow> real \<Rightarrow> real \<Rightarrow> py_error + KalmanFilter" where
  "KalmanFilter_init dt process_noise measurement_noise =
     Inr \<lparr> kf_dt = dt, kf_process_noise = process_noise,
           kf_measurement_noise = measurement_noise,
           kf_state = zeros 4 1,
           kf_P = mat_scale (eye 4) 100,
           kf_F = [[1, 0, dt, 0], [0, 1, 0, dt], [0, 0, 1, 0], [0, 0, 0, 1]],
           kf_H = [[1, 0, 0, 0], [0, 1, 0, 0]],
           kf_Q = mat_scale (eye 4) process_noise,
           kf_R = mat_scale (eye 2) measurement_noise,
           kf_initialized = False \<rparr>"

definition initialize :: "KalmanFilter \<Rightarrow> real \<Rightarrow> real \<Rightarrow> KalmanFilter" where
  "initialize self x y =
     self\<lparr> kf_state := set_cell (set_cell (set_cell (set_cell (kf_state self) 0 0 x) 1 0 y) 2 0 0) 3 0 0,
           kf_P := mat_scale (eye 4) 1,
           kf_initialized := True \<rparr>"

definition predict :: "KalmanFilter \<Rightarrow> KalmanFilter \<times> (real \<times> real)" where
  "predict self =
     (let state' = matmul (kf_F self) (kf_state self);
          P' = mat_add (matmul (matmul (kf_F self) (kf_P self)) (transpose (kf_F self))) (kf_Q self)
      in (self\<lparr> kf_state := state', kf_P := P' \<rparr>, (cell state' 0 0, cell state' 1 0)))"

definition update :: "KalmanFilter \<Rightarrow> real \<Rightarrow> real \<Rightarrow> py_error + KalmanFilter \<times> (real \<times> real)" where
  "update self x y =
     (if \<not> kf_initialized self then Inr (initialize self x y, (x, y))
      else
        (let z = [[x], [y]];
             z_pred = matmul (kf_H self) (kf_state self);
             y_res = mat_sub z z_pred;
             S = mat_add (matmul (matmul (kf_H self) (kf_P self)) (transpose (kf_H self))) (kf_R self)
         in (case linalg_inv S of
               Inl e \<Rightarrow> Inl e
             | Inr S_inv \<Rightarrow>
                 (let K = matmul (matmul (kf_P self) (transpose (kf_H self))) S_inv;
                      state' = mat_add (kf_state self) (matmul K y_res);
                      P' = matmul (mat_sub (eye 4) (matmul K (kf_H self))) (kf_P self)
                  in Inr (self\<lparr> kf_state := state', kf_P := P' \<rparr>,
                          (cell state' 0 0, cell state' 1 0))))))"

definition predict_update :: "KalmanFilter \<Rightarrow> real \<Rightarrow> real \<Rightarrow> py_error + KalmanFilter \<times> (real \<times> real)" where
  "predict_update self x y = update (fst (predict self)) x y"

text \<open>The dict returned by \<^verbatim>\<open>get_state\<close>.\<close>

record state_snapshot =
  sn_x :: real
  sn_y :: real
  sn_vx :: real
  sn_vy :: real
  sn_speed :: real
  sn_P :: matrix

definition get_state :: "KalmanFilter \<Rightarrow> state_snapshot" where
  "get_state self =
     \<lparr> sn_x = cell (kf_state self) 0 0, sn_y = cell (kf_state self) 1 0,
       sn_vx = cell (kf_state self) 2 0, sn_vy = cell (kf_state self) 3 0,
       sn_speed = sqrt ((cell (kf_state self) 2 0)\<^sup>2 + (cell (kf_state self) 3 0)\<^sup>2),
       sn_P = kf_P self \<rparr>"

text \<open>The state array has the shape the constructor gives it.\<close>

definition state_shape_ok :: "KalmanFilter \<Rightarrow> bool" where
  "state_shape_ok self \<longleftrightarrow>
     length (kf_state self) = 4 \<and> list_all (\<lambda>row. length row = 1) (kf_state self)"

subsection \<open>The registry (\<^verbatim>\<open>MultiTargetKalmanFilter\<close>)\<close>

record MultiTargetKalmanFilter =
  filters :: "(string \<times> KalmanFilter) list"

definition MultiTargetKalmanFilter_init :: MultiTargetKalmanFilter where
  "MultiTargetKalmanFilter_init = \<lparr> filters = [] \<rparr>"

definition add_target ::
  "MultiTargetKalmanFilter \<Rightarrow> string \<Rightarrow> real \<Rightarrow> real \<Rightarrow> real \<Rightarrow> real
     \<Rightarrow> py_error + MultiTargetKalmanFilter" where
  "add_target self target_id x y process_noise measurement_noise =
     (case KalmanFilter_init 1 process_noise measurement_noise of
        Inl e \<Rightarrow> Inl e
      | Inr kf \<Rightarrow>
          Inr (self\<lparr> filters := AList.update target_id (initialize kf x y) (filters self) \<rparr>))"

definition update_target ::
  "MultiTargetKalmanFilter \<Rightarrow> string \<Rightarrow> real \<Rightarrow> real
     \<Rightarrow> py_error + MultiTargetKalmanFilter \<times> state_snapshot" where
  "update_target self target_id x y =
     (case map_of (filters self) target_id of
        None \<Rightarrow>
          (case add_target self target_id x y (1 / 10) 1 of
             Inl e \<Rightarrow> Inl e
           | Inr self' \<Rightarrow>
               (case map_of (filters self') target_id of
                  None \<Rightarrow> Inl KeyError
                | Some kf \<Rightarrow> Inr (self', get_state kf)))
      | Some kf \<Rightarrow>
          (case predict_update kf x y of
             Inl e \<Rightarrow> Inl e
           | Inr (kf', pos) \<Rightarrow>
               Inr (self\<lparr> filters := AList.update target_id kf' (filters self) \<rparr>, get_state kf')))"

definition predict_target ::
  "MultiTargetKalmanFilter \<Rightarrow> string \<Rightarrow> MultiTargetKalmanFilter \<times> (real \<times> real) option" where
  "predict_target self target_id =
     (case map_of (filters self) target_id of
        None \<Rightarrow> (self, None)
      | Some kf \<Rightarrow>
          (case predict kf of (kf', pos) \<Rightarrow>
             (self\<lparr> filters := AList.update target_id kf' (filters self) \<rparr>, Some pos)))"

definition remove_target :: "MultiTargetKalmanFilter \<Rightarrow> string \<Rightarrow> MultiTargetKalmanFilter" where
  "remove_target self target_id =
     (if target_id \<in> fst ` set (filters self)
      then self\<lparr> filters := AList.delete target_id (filters self) \<rparr>
      else self)"

section \<open>The pluggable linear tracker (\<^verbatim>\<open>src/advanced_tracker.py\<close>)\<close>

record KFTracker =
  kt_dt :: real
  kt_F :: matrix
  kt_H :: matrix
  kt_Q :: matrix
  kt_R :: matrix
  kt_x :: matrix
  kt_P :: matrix
  kt_init :: bool

definition KFTracker_init :: "real \<Rightarrow> real \<Rightarrow> real \<Rightarrow> KFTracker" where
  "KFTracker_init dt q r =
     \<lparr> kt_dt = dt,
       kt_F = [[1, 0, dt, 0], [0, 1, 0, dt], [0, 0, 1, 0], [0, 0, 0, 1]],
       kt_H = [[1, 0, 0, 0], [0, 1, 0, 0]],
       kt_Q = mat_scale (eye 4) q,
       kt_R = mat_scale (eye 2) r,
       kt_x = zeros 4 1,
       kt_P = mat_scale (eye 4) 100,
       kt_init = False \<rparr>"

definition process :: "KFTracker \<Rightarrow> real \<Rightarrow> real \<Rightarrow> py_error + KFTracker \<times> (real \<times> real)" where
  "process self x y =
     (if \<not> kt_init self
      then Inr (self\<lparr> kt_x := [[x], [y], [0], [0]], kt_P := eye 4, kt_init := True \<rparr>, (x, y))
      else
        (let x1 = matmul (kt_F self) (kt_x self);
             P1 = mat_add (matmul (matmul (kt_F self) (kt_P self)) (transpose (kt_F self))) (kt_Q self);
             z = [[x], [y]];
             y_res = mat_sub z (matmul (kt_H self) x1);
             S = mat_add (matmul (matmul (kt_H self) P1) (transpose (kt_H self))) (kt_R self)
         in (case linalg_inv S of
               Inl e \<Rightarrow> Inl e
             | Inr S_inv \<Rightarrow>
                 (let K = matmul (matmul P1 (transpose (kt_H self))) S_inv;
                      x2 = mat_add x1 (matmul K y_res);
                      P2 = matmul (mat_sub (eye 4) (matmul K (kt_H self))) P1
                  in Inr (self\<lparr> kt_x := x2, kt_P := P2 \<rparr>, (cell x2 0 0, cell x2 1 0))))))"

section \<open>Configuration validation (\<^verbatim>\<open>src/config_validator.py\<close>)\<close>

text \<open>
  The messages are formatted strings in the source; here a message is a constructor that
  carries the interpolated value.  \<^verbatim>\<open>_validate_fusion\<close> reads the \<^verbatim>\<open>fusion\<close> section and
  only looks at its \<^verbatim>\<open>tracker\<close> entry.
\<close>

datatype validation_message = UnknownTracker string

record ConfigValidator =
  cv_errors :: "validation_message list"
  cv_warnings :: "validation_message list"

definition validate_fusion :: "FusionConfig \<Rightarrow> ConfigValidator \<Rightarrow> ConfigValidator" where
  "validate_fusion fusion self =
     (let tracker = dict_get (cfg_tracker fusion) ''KF''
      in if tracker \<notin> set [''KF'', ''EKF'', ''UKF'', ''PF'']
         then self\<lparr> cv_warnings := cv_warnings self @ [UnknownTracker tracker] \<rparr>
         else self)"

section \<open>Invariants\<close>

text \<open>
  The invariant of the live track set: identities are distinct, and every entry is keyed by
  its own identity and carries the classification, the confidence and the identity prefix
  of the contact references it holds.
\<close>

definition track_ok :: "string \<times> FusedTarget \<Rightarrow> bool" where
  "track_ok e =
     (case e of (fid, t) \<Rightarrow>
        ft_fused_id t = fid \<and>
        (case (ft_radar_target t, ft_ais_target t) of
           (Some r, Some a) \<Rightarrow>
             ft_source_type t = ''fused'' \<and> ft_confidence t = 9 / 10 \<and> fid = ''F'' @ ais_mmsi a
         | (None, Some a) \<Rightarrow>
             ft_source_type t = ''ais'' \<and> ft_confidence t = 8 / 10 \<and> fid = ''A'' @ ais_mmsi a
         | (Some r, None) \<Rightarrow>
             ft_source_type t = ''radar'' \<and> ft_confidence t = 7 / 10 \<and> fid = ''R'' @ rt_target_id r
         | (None, None) \<Rightarrow> False))"

definition fusion_inv :: "TargetFusion \<Rightarrow> bool" where
  "fusion_inv self \<longleftrightarrow>
     distinct (map fst (fused_targets self)) \<and> list_all track_ok (fused_targets self)"

text \<open>
  A track is classified consistently when it is \<^verbatim>\<open>fused\<close> exactly if it holds both contact
  references, and its confidence is the weight of the references it holds.
\<close>

definition classified :: "FusedTarget \<Rightarrow> bool" where
  "classified t \<longleftrightarrow>
     (ft_source_type t = ''fused'' \<longleftrightarrow> ft_radar_target t \<noteq> None \<and> ft_ais_target t \<noteq> None) \<and>
     ft_confidence t =
       (if ft_radar_target t \<noteq> None \<and> ft_ais_target t \<noteq> None then 9 / 10
        else if ft_ais_target t \<noteq> None then 8 / 10 else 7 / 10)"

text \<open>
  The estimator instances: what the constructor returns, and what the methods make of an
  instance.  The array shapes the methods rely on are an invariant of these.
\<close>

inductive kf_instance :: "KalmanFilter \<Rightarrow> bool" where
  constructed_kf: "KalmanFilter_init dt q r = Inr kf \<Longrightarrow> kf_instance kf"
| initialized_kf: "kf_instance kf \<Longrightarrow> kf_instance (initialize kf x y)"
| predicted_kf: "kf_instance kf \<Longrightarrow> kf_instance (fst (predict kf))"
| updated_kf: "kf_instance kf \<Longrightarrow> update kf x y = Inr (kf', pos) \<Longrightarrow> kf_instance kf'"

definition kf_shapes :: "KalmanFilter \<Rightarrow> bool" where
  "kf_shapes kf \<longleftrightarrow>
     state_shape_ok kf \<and> length (kf_P kf) = 4 \<and> length (kf_F kf) = 4 \<and>
     length (kf_H kf) = 2 \<and> length (kf_Q kf) = 4"

section \<open>Concrete scenarios\<close>

text \<open>
  Inputs at which the properties below are evaluated: an engine as the constructor leaves it
  (origin at latitude 0, longitude 0, gate 100 m, maximal age 60 s), a radar contact one
  nautical mile due north of the origin, and AIS contacts on the same meridian: at the
  radar position, about 55.6 m north of it, and exactly 100 m north of it.
\<close>

definition default_config :: FusionConfig where
  "default_config = \<lparr> cfg_enabled = None, cfg_association_distance_m = None,
     cfg_max_age_seconds = None, cfg_tracker = None \<rparr>"

definition engine0 :: TargetFusion where
  "engine0 = \<lparr> enabled = True, association_distance = 100, max_age = 60,
     radar_targets = [], ais_targets = [], fused_targets = [],
     matched_ais = {}, radar_origin = (0, 0) \<rparr>"

definition radar1 :: RadarTarget where
  "radar1 = \<lparr> rt_target_id = ''1'', rt_distance_nm = 1, rt_bearing_deg = 0,
     rt_speed_knots = 10, rt_course_deg = 0, rt_target_type = ''M'', rt_name = [],
     rt_status = ''A'', rt_signal_strength = 0, rt_timestamp = 0 \<rparr>"

definition ais_at :: "string \<Rightarrow> real \<Rightarrow> AISTarget" where
  "ais_at mmsi lat = \<lparr> ais_mmsi = mmsi, ais_name = [], ais_lat = lat, ais_lon = 0,
     ais_speed_knots = 12, ais_course_deg = 45, ais_heading_deg = 44, ais_ship_type = [],
     ais_imo = [], ais_call_sign = [], ais_dest = [], ais_eta = [], ais_timestamp = 0 \<rparr>"

definition ais_near :: AISTarget where
  "ais_near = ais_at ''200100001'' (463 / 27750)"

definition ais_mid :: AISTarget where
  "ais_mid = ais_at ''200100002'' (763 / 44400)"

definition ais_gate :: AISTarget where
  "ais_gate = ais_at ''200100004'' (463 / 27750 + 18 / (6371 * pi))"

definition pool2 :: TargetFusion where
  "pool2 = run_ops engine0 [AddAIS ais_mid 0, AddAIS ais_near 0]"

definition pool_gate :: TargetFusion where
  "pool_gate = run_ops engine0 [AddAIS ais_gate 0]"

definition radar_then_ais :: TargetFusion where
  "radar_then_ais = run_ops engine0 [AddRadar radar1 0, AddAIS ais_near 1]"

definition ais_then_radar :: TargetFusion where
  "ais_then_radar = run_ops engine0 [AddAIS ais_near 0, AddRadar radar1 1]"

text \<open>The tracks of the scenarios, created at time \<open>now\<close>.\<close>

definition track_R :: "real \<Rightarrow> FusedTarget" where
  "track_R now =
     \<lparr> ft_fused_id = ''R1'', ft_radar_target = Some radar1, ft_ais_target = None,
       ft_source_type = ''radar'', ft_lat = 463 / 27750, ft_lon = 0, ft_speed_knots = 10,
       ft_course_deg = 0, ft_heading_deg = 0, ft_confidence = 7 / 10, ft_status = ''tracking'',
       ft_timestamp = now, ft_history = [] \<rparr>"

definition track_A :: "real \<Rightarrow> FusedTarget" where
  "track_A now =
     \<lparr> ft_fused_id = ''A200100001'', ft_radar_target = None, ft_ais_target = Some ais_near,
       ft_source_type = ''ais'', ft_lat = 463 / 27750, ft_lon = 0, ft_speed_knots = 12,
       ft_course_deg = 45, ft_heading_deg = 44, ft_confidence = 8 / 10, ft_status = ''tracking'',
       ft_timestamp = now, ft_history = [] \<rparr>"

definition track_F :: "real \<Rightarrow> FusedTarget" where
  "track_F now =
     \<lparr> ft_fused_id = ''F200100001'', ft_radar_target = Some radar1, ft_ais_target = Some ais_near,
       ft_source_type = ''fused'', ft_lat = 463 / 27750, ft_lon = 0, ft_speed_knots = 12,
       ft_course_deg = 45, ft_heading_deg = 0, ft_confidence = 9 / 10, ft_status = ''tracking'',
       ft_timestamp = now, ft_history = [] \<rparr>"

definition three_tracks :: TargetFusion where
  "three_tracks = run_ops engine0 [AddAIS ais_near 0, AddRadar radar1 1, AddRadar radar1 2]"

text \<open>
  An estimator as \<^verbatim>\<open>KalmanFilter(dt=1.0, process_noise=0.1, measurement_noise=1.0)\<close> leaves it,
  and a registry that tracks the one identity \<^verbatim>\<open>T1\<close>, first seen at (3, 4).
\<close>

definition kf_fresh :: KalmanFilter where
  "kf_fresh =
     \<lparr> kf_dt = 1, kf_process_noise = 1 / 10, kf_measurement_noise = 1,
       kf_state = [[0], [0], [0], [0]],
       kf_P = [[100, 0, 0, 0], [0, 100, 0, 0], [0, 0, 100, 0], [0, 0, 0, 100]],
       kf_F = [[1, 0, 1, 0], [0, 1, 0, 1], [0, 0, 1, 0], [0, 0, 0, 1]],
       kf_H = [[1, 0, 0, 0], [0, 1, 0, 0]],
       kf_Q = [[1 / 10, 0, 0, 0], [0, 1 / 10, 0, 0], [0, 0, 1 / 10, 0], [0, 0, 0, 1 / 10]],
       kf_R = [[1, 0], [0, 1]],
       kf_initialized = False \<rparr>"

definition registry1 :: MultiTargetKalmanFilter where
  "registry1 = \<lparr> filters = [(''T1'', initialize kf_fresh 3 4)] \<rparr>"

definition bad_config :: FusionConfig where
  "bad_config = \<lparr> cfg_enabled = None, cfg_association_distance_m = Some (- 5),
     cfg_max_age_seconds = None, cfg_tracker = None \<rparr>"

section \<open>Properties\<close>

subsection \<open>Distances and positions\<close>

lemma haversine_distance_self: "haversine_distance lat lon lat lon = 0"
  by (simp add: haversine_distance_def radians_def atan2_def)

lemma haversine_distance_sym:
  "haversine_distance lat1 lon1 lat2 lon2 = haversine_distance lat2 lon2 lat1 lon1"
proof -
  have s: "(sin (radians (x - y) / 2))\<^sup>2 = (sin (radians (y - x) / 2))\<^sup>2" for x y
  proof -
    have "radians (x - y) / 2 = - (radians (y - x) / 2)"
      by (simp add: radians_def field_simps)
    then show ?thesis by (metis power2_minus sin_minus)
  qed
  show ?thesis
    unfolding haversine_distance_def Let_def
    by (simp only: s [of lat1 lat2] s [of lon1 lon2] mult.commute [of "cos (radians lat1)"])
qed

lemma atan2_sin_cos:
  assumes "0 \<le> h" "h < pi / 2"
  shows "atan2 (sqrt ((sin h)\<^sup>2)) (sqrt (1 - (sin h)\<^sup>2)) = h"
proof -
  have s: "0 \<le> sin h" using assms by (intro sin_ge_zero) (auto intro: order_trans)
  have c: "0 < cos h" using assms by (intro cos_gt_zero_pi) auto
  have "1 - (sin h)\<^sup>2 = (cos h)\<^sup>2"
    by (simp add: cos_squared_eq)
  then have "atan2 (sqrt ((sin h)\<^sup>2)) (sqrt (1 - (sin h)\<^sup>2)) = atan2 (sin h) (cos h)"
    using s c by simp
  also have "\<dots> = arctan (tan h)"
    using c by (simp add: atan2_def tan_def)
  also have "\<dots> = h"
    using assms by (intro arctan_tan) auto
  finally show ?thesis .
qed

lemma haversine_distance_meridian:
  assumes "lat1 \<le> lat2" "lat2 - lat1 < 180"
  shows "haversine_distance lat1 lon lat2 lon = 6371000 * radians (lat2 - lat1)"
proof -
  let ?h = "radians (lat2 - lat1) / 2"
  have h0: "0 \<le> ?h" using assms by (simp add: radians_def)
  have h1: "?h < pi / 2" using assms by (simp add: radians_def)
  have "haversine_distance lat1 lon lat2 lon
          = 6371000 * (2 * atan2 (sqrt ((sin ?h)\<^sup>2)) (sqrt (1 - (sin ?h)\<^sup>2)))"
    by (simp add: haversine_distance_def Let_def radians_def)
  then show ?thesis using atan2_sin_cos [OF h0 h1] by simp
qed

lemma radar_to_geo_north: "radar_to_geo d 0 0 0 = (d * 1852 / 111000, 0)"
  by (simp add: radar_to_geo_def radians_def)

lemma engine0_constructed: "TargetFusion_init default_config = Inr engine0"
  by (simp add: TargetFusion_init_def default_config_def engine0_def dict_get_def)

lemma radar1_geo: "radar_geo engine0 radar1 = (463 / 27750, 0)"
  by (simp add: radar_geo_def engine0_def radar1_def radar_to_geo_north)

lemma dist_mid: "haversine_distance (463 / 27750) 0 (763 / 44400) 0 = 6371 * pi / 360"
  by (subst haversine_distance_meridian) (simp_all add: radians_def)

lemma dist_mid_bounds: "0 < 6371 * pi / 360" "6371 * pi / 360 < 100"
  using pi_gt_zero pi_less_4 by simp_all

lemma dist_gate: "haversine_distance (463 / 27750) 0 (463 / 27750 + 18 / (6371 * pi)) 0 = 100"
proof -
  have "18 / (6371 * pi) < 180"
    using pi_ge_two by (simp add: field_simps)
  then show ?thesis
    by (subst haversine_distance_meridian) (simp_all add: radians_def)
qed

subsection \<open>The association searches\<close>

lemma find_ais_loop_find:
  "find_ais_loop self lat lon xs = List.find (ais_accepted self lat lon) xs"
  by (induction xs) (auto simp: ais_accepted_def)

lemma find_radar_loop_find:
  "find_radar_loop self lat lon xs = List.find (radar_accepted self lat lon) xs"
  by (induction xs) (auto simp: radar_accepted_def split: prod.splits)

lemma find_matching_ais_accepted:
  "find_matching_ais self lat lon = Some ais \<Longrightarrow> ais_accepted self lat lon ais"
  by (auto simp: find_matching_ais_def find_ais_loop_find find_Some_iff)

lemma find_matching_radar_accepted:
  "find_matching_radar self lat lon = Some radar \<Longrightarrow> radar_accepted self lat lon radar"
  by (auto simp: find_matching_radar_def find_radar_loop_find find_Some_iff)

lemma pool2_state:
  "map snd (ais_targets pool2) = [ais_mid, ais_near]" "matched_ais pool2 = {}"
  "association_distance pool2 = 100"
  by (simp_all add: pool2_def engine0_def add_ais_target_def find_matching_radar_def
        fuse_ais_only_def Let_def ais_mid_def ais_near_def ais_at_def)

lemma pool_gate_state:
  "map snd (ais_targets pool_gate) = [ais_gate]" "matched_ais pool_gate = {}"
  "association_distance pool_gate = 100"
  by (simp_all add: pool_gate_def engine0_def add_ais_target_def find_matching_radar_def
        fuse_ais_only_def Let_def)

lemma ais_positions:
  "ais_lat ais_near = 463 / 27750" "ais_lon ais_near = 0" "ais_mmsi ais_near = ''200100001''"
  "ais_lat ais_mid = 763 / 44400" "ais_lon ais_mid = 0" "ais_mmsi ais_mid = ''200100002''"
  "ais_lat ais_gate = 463 / 27750 + 18 / (6371 * pi)" "ais_lon ais_gate = 0"
  "ais_mmsi ais_gate = ''200100004''"
  by (simp_all add: ais_near_def ais_mid_def ais_gate_def ais_at_def)

lemma pool2_first: "find_matching_ais pool2 (463 / 27750) 0 = Some ais_mid"
  using dist_mid_bounds
  by (simp add: find_matching_ais_def pool2_state ais_positions dist_mid)

text \<open>
  The search is not a nearest-neighbour search.  With two unmatched AIS contacts inside the
  gate, the first one inserted (about 55.6 m from the query position) is returned although
  the second one lies at the query position itself.
\<close>

theorem association_not_nearest_counterexample:
  "find_matching_ais pool2 (463 / 27750) 0 = Some ais_mid
   \<and> ais_near \<in> set (map snd (ais_targets pool2))
   \<and> ais_mmsi ais_near \<notin> matched_ais pool2
   \<and> haversine_distance (463 / 27750) 0 (ais_lat ais_near) (ais_lon ais_near)
        < haversine_distance (463 / 27750) 0 (ais_lat ais_mid) (ais_lon ais_mid)"
  using dist_mid_bounds
  by (simp add: pool2_first pool2_state ais_positions dist_mid haversine_distance_self)

text \<open>
  C1 (amended).  Each association search returns the first candidate, in the insertion
  order of the pool, that passes the acceptance test (for AIS: MMSI unmatched and haversine
  distance strictly below the gate; for radar: haversine distance of the converted position
  strictly below the gate), and reports no match exactly when no candidate of the pool
  passes it.  The returned candidate is inside the gate, but it need not be the nearest.
\<close>

theorem association_first_within_gate:
  "(find_matching_ais self lat lon = None \<longleftrightarrow>
      (\<forall>ais \<in> set (map snd (ais_targets self)). \<not> ais_accepted self lat lon ais))
   \<and> (\<forall>ais. find_matching_ais self lat lon = Some ais \<longleftrightarrow>
        (\<exists>i < length (ais_targets self).
           snd (ais_targets self ! i) = ais \<and> ais_accepted self lat lon ais
           \<and> (\<forall>j < i. \<not> ais_accepted self lat lon (snd (ais_targets self ! j)))))
   \<and> (find_matching_radar self lat lon = None \<longleftrightarrow>
        (\<forall>radar \<in> set (map snd (radar_targets self)). \<not> radar_accepted self lat lon radar))
   \<and> (\<forall>radar. find_matching_radar self lat lon = Some radar \<longleftrightarrow>
        (\<exists>i < length (radar_targets self).
           snd (radar_targets self ! i) = radar \<and> radar_accepted self lat lon radar
           \<and> (\<forall>j < i. \<not> radar_accepted self lat lon (snd (radar_targets self ! j)))))"
proof -
  have none: "(List.find P (map snd xs) = None) = (\<forall>v \<in> set (map snd xs). \<not> P v)"
    for P :: "'v \<Rightarrow> bool" and xs :: "('k \<times> 'v) list"
    by (simp add: find_None_iff)
  have some: "(List.find P (map snd xs) = Some v) =
      (\<exists>i < length xs. snd (xs ! i) = v \<and> P v \<and> (\<forall>j < i. \<not> P (snd (xs ! j))))"
    for P :: "'v \<Rightarrow> bool" and xs :: "('k \<times> 'v) list" and v
  proof
    assume "List.find P (map snd xs) = Some v"
    then obtain i where "i < length xs" "P (snd (xs ! i))" "v = snd (xs ! i)"
        "\<forall>j < i. \<not> P (map snd xs ! j)"
      by (auto simp: find_Some_iff)
    then show "\<exists>i < length xs. snd (xs ! i) = v \<and> P v \<and> (\<forall>j < i. \<not> P (snd (xs ! j)))"
      by (intro exI [of _ i]) auto
  next
    assume "\<exists>i < length xs. snd (xs ! i) = v \<and> P v \<and> (\<forall>j < i. \<not> P (snd (xs ! j)))"
    then obtain i where "i < length xs" "snd (xs ! i) = v" "P v"
        "\<forall>j < i. \<not> P (snd (xs ! j))"
      by blast
    then show "List.find P (map snd xs) = Some v"
      unfolding find_Some_iff by (intro exI [of _ i]) auto
  qed
  show ?thesis
    unfolding find_matching_ais_def find_matching_radar_def find_ais_loop_find
      find_radar_loop_find none some
    by simp
qed

theorem association_first_within_gate_witness:
  "find_matching_ais pool2 (463 / 27750) 0 = Some (snd (ais_targets pool2 ! 0))
   \<and> ais_accepted pool2 (463 / 27750) 0 ais_near
   \<and> find_matching_radar pool2 (463 / 27750) 0 = None"
proof -
  have acc: "ais_accepted pool2 (463 / 27750) 0 ais_mid" "ais_accepted pool2 (463 / 27750) 0 ais_near"
    using dist_mid_bounds
    by (simp_all add: ais_accepted_def pool2_state ais_positions dist_mid haversine_distance_self)
  have len: "0 < length (ais_targets pool2)" "snd (ais_targets pool2 ! 0) = ais_mid"
    using pool2_state(1) by (cases "ais_targets pool2"; simp)+
  have nor: "radar_targets pool2 = []"
    by (simp add: pool2_def engine0_def add_ais_target_def find_matching_radar_def
        fuse_ais_only_def Let_def)
  from association_first_within_gate [of pool2 "463 / 27750" 0]
  have "find_matching_ais pool2 (463 / 27750) 0 = Some ais_mid \<longleftrightarrow>
        (\<exists>i < length (ais_targets pool2).
           snd (ais_targets pool2 ! i) = ais_mid \<and> ais_accepted pool2 (463 / 27750) 0 ais_mid
           \<and> (\<forall>j < i. \<not> ais_accepted pool2 (463 / 27750) 0 (snd (ais_targets pool2 ! j))))"
    and "find_matching_radar pool2 (463 / 27750) 0 = None \<longleftrightarrow>
        (\<forall>radar \<in> set (map snd (radar_targets pool2)). \<not> radar_accepted pool2 (463 / 27750) 0 radar)"
    by blast+
  then show ?thesis using acc len nor by auto
qed

text \<open>
  C6.  A candidate whose haversine distance to the query position equals the gating
  distance is never the result of either association search: the comparison is strict.
\<close>

theorem gate_is_strict:
  "(haversine_distance lat lon (ais_lat ais) (ais_lon ais) = association_distance self
      \<longrightarrow> find_matching_ais self lat lon \<noteq> Some ais)
   \<and> (haversine_distance lat lon (fst (radar_geo self radar)) (snd (radar_geo self radar))
        = association_distance self
      \<longrightarrow> find_matching_radar self lat lon \<noteq> Some radar)"
  using find_matching_ais_accepted [of self lat lon ais]
    find_matching_radar_accepted [of self lat lon radar]
  by (auto simp: ais_accepted_def radar_accepted_def)

theorem gate_is_strict_witness:
  "haversine_distance (463 / 27750) 0 (ais_lat ais_gate) (ais_lon ais_gate)
     = association_distance pool_gate
   \<and> ais_gate \<in> set (map snd (ais_targets pool_gate))
   \<and> ais_mmsi ais_gate \<notin> matched_ais pool_gate
   \<and> find_matching_ais pool_gate (463 / 27750) 0 \<noteq> Some ais_gate"
  using gate_is_strict [of "463 / 27750" 0 ais_gate pool_gate]
  by (simp add: pool_gate_state ais_positions dist_gate)

subsection \<open>The matched set\<close>

lemma matched_ais_apply_op: "matched_ais self \<subseteq> matched_ais (apply_op self op)"
  by (cases op)
    (auto simp: add_radar_target_def fuse_radar_target_def add_ais_target_def fuse_ais_only_def
      get_fused_targets_def set_radar_origin_def Let_def split: prod.splits option.splits)

lemma matched_ais_run_ops: "matched_ais self \<subseteq> matched_ais (run_ops self ops)"
proof (induction ops arbitrary: self)
  case Nil
  show ?case by simp
next
  case (Cons op ops)
  have "matched_ais self \<subseteq> matched_ais (apply_op self op)"
    by (rule matched_ais_apply_op)
  also have "\<dots> \<subseteq> matched_ais (run_ops (apply_op self op) ops)"
    by (rule Cons.IH)
  finally show ?case by simp
qed

text \<open>
  C10.  An MMSI in \<^verbatim>\<open>matched_ais\<close> stays there through every sequence of operations of
  the engine, and after any such sequence the AIS-side association search returns no
  contact with that MMSI, whatever the query position.
\<close>

theorem matched_ais_only_grows:
  "mmsi \<in> matched_ais self \<Longrightarrow>
     mmsi \<in> matched_ais (run_ops self ops) \<and>
     (\<forall>lat lon. map_option ais_mmsi (find_matching_ais (run_ops self ops) lat lon) \<noteq> Some mmsi)"
proof -
  assume m: "mmsi \<in> matched_ais self"
  then have m': "mmsi \<in> matched_ais (run_ops self ops)"
    using matched_ais_run_ops [of self ops] by blast
  have "map_option ais_mmsi (find_matching_ais (run_ops self ops) lat lon) \<noteq> Some mmsi" for lat lon
  proof
    assume "map_option ais_mmsi (find_matching_ais (run_ops self ops) lat lon) = Some mmsi"
    then obtain ais where "find_matching_ais (run_ops self ops) lat lon = Some ais"
        "ais_mmsi ais = mmsi"
      by auto
    then show False
      using find_matching_ais_accepted [of "run_ops self ops" lat lon ais] m'
      by (simp add: ais_accepted_def)
  qed
  with m' show ?thesis by blast
qed

lemma radar_then_ais_matched: "matched_ais radar_then_ais = {''200100001''}"
  by (simp add: radar_then_ais_def engine0_def add_radar_target_def fuse_radar_target_def
      add_ais_target_def find_matching_ais_def find_matching_radar_def radar_geo_def
      radar_to_geo_north radar1_def ais_positions haversine_distance_self Let_def)

theorem matched_ais_only_grows_witness:
  "''200100001'' \<in> matched_ais radar_then_ais \<and>
   ''200100001'' \<in> matched_ais
      (run_ops radar_then_ais [GetFused 100, AddAIS ais_near 101, AddRadar radar1 102]) \<and>
   (\<forall>lat lon. map_option ais_mmsi (find_matching_ais
      (run_ops radar_then_ais [GetFused 100, AddAIS ais_near 101, AddRadar radar1 102]) lat lon)
        \<noteq> Some ''200100001'')"
proof -
  have m: "''200100001'' \<in> matched_ais radar_then_ais"
    by (simp add: radar_then_ais_matched)
  from matched_ais_only_grows [OF m, of "[GetFused 100, AddAIS ais_near 101, AddRadar radar1 102]"] m
  show ?thesis by blast
qed


subsection \<open>The invariant of the live track set\<close>

lemma list_all_update:
  "list_all P al \<Longrightarrow> P (k, v) \<Longrightarrow> list_all P (AList.update k v al)"
  by (induction al) auto

lemma list_all_delete: "list_all P al \<Longrightarrow> list_all P (AList.delete k al)"
  by (induction al) auto

lemma delete_loop_filter:
  "delete_loop ks d = filter (\<lambda>e. fst e \<notin> set ks) d"
proof (induction ks arbitrary: d)
  case Nil
  show ?case by simp
next
  case (Cons k ks)
  have "AList.delete k d = filter (\<lambda>e. fst e \<noteq> k) d"
    by (induction d) auto
  then show ?case
    by (simp add: Cons.IH)
qed

lemma expired_loop_set:
  "set (expired_loop self now d) =
     {fid. \<exists>t. (fid, t) \<in> set d \<and> now - ft_timestamp t > max_age self}"
  by (induction d rule: expired_loop.induct) auto

lemma fusion_inv_update:
  "fusion_inv self \<Longrightarrow> track_ok (k, v) \<Longrightarrow>
     fusion_inv (self\<lparr> fused_targets := AList.update k v (fused_targets self) \<rparr>)"
  by (simp add: fusion_inv_def distinct_update list_all_update)

lemma fusion_inv_fuse_radar_target:
  "fusion_inv self \<Longrightarrow> fusion_inv (fuse_radar_target self radar now)"
  unfolding fuse_radar_target_def Let_def
  by (auto split: prod.splits option.splits
      simp: fusion_inv_def distinct_update list_all_update track_ok_def FusedTarget_new_def)

lemma fusion_inv_fuse_ais_only:
  "fusion_inv self \<Longrightarrow> fusion_inv (fuse_ais_only self ais now)"
  unfolding fuse_ais_only_def Let_def
  by (auto split: prod.splits option.splits
      simp: fusion_inv_def distinct_update list_all_update track_ok_def FusedTarget_new_def)

lemma fusion_inv_add_ais_target:
  "fusion_inv self \<Longrightarrow> fusion_inv (add_ais_target self ais now)"
proof -
  assume inv: "fusion_inv self"
  let ?s = "self\<lparr> ais_targets := AList.update (ais_mmsi ais) ais (ais_targets self) \<rparr>"
  have s: "fusion_inv ?s" using inv by (simp add: fusion_inv_def)
  show ?thesis
  proof (cases "find_matching_radar ?s (ais_lat ais) (ais_lon ais)")
    case None
    then show ?thesis
      using fusion_inv_fuse_ais_only [OF s] by (simp add: add_ais_target_def Let_def)
  next
    case (Some r)
    then show ?thesis
      using inv
      by (auto simp: add_ais_target_def Let_def fusion_inv_def distinct_update list_all_update
          track_ok_def FusedTarget_new_def split: prod.splits)
  qed
qed

lemma fusion_inv_get_fused_targets:
  "fusion_inv self \<Longrightarrow> fusion_inv (fst (get_fused_targets self now))"
  by (simp add: get_fused_targets_def Let_def fusion_inv_def delete_loop_filter
      distinct_map_filter list_all_iff)

lemma fusion_inv_apply_op: "fusion_inv self \<Longrightarrow> fusion_inv (apply_op self op)"
proof (cases op)
  case (AddRadar r now)
  assume "fusion_inv self"
  then have "fusion_inv (self\<lparr> radar_targets := AList.update (rt_target_id r) r (radar_targets self) \<rparr>)"
    by (simp add: fusion_inv_def)
  then show ?thesis
    using AddRadar by (simp add: add_radar_target_def fusion_inv_fuse_radar_target)
next
  case (AddAIS a now)
  assume "fusion_inv self"
  then show ?thesis using AddAIS by (simp add: fusion_inv_add_ais_target)
next
  case (GetFused now)
  assume "fusion_inv self"
  then show ?thesis using GetFused by (simp add: fusion_inv_get_fused_targets)
next
  case (SetOrigin lon lat)
  assume "fusion_inv self"
  then show ?thesis using SetOrigin by (simp add: set_radar_origin_def fusion_inv_def)
qed

lemma reachable_fusion_inv: "reachable self \<Longrightarrow> fusion_inv self"
proof (induction rule: reachable.induct)
  case (constructed cfg self)
  then show ?case by (auto simp: TargetFusion_init_def fusion_inv_def)
next
  case (operation self op)
  then show ?case by (simp add: fusion_inv_apply_op)
qed


lemma reachable_run_ops: "reachable self \<Longrightarrow> reachable (run_ops self ops)"
  by (induction ops arbitrary: self) (auto intro: reachable.operation)

lemma reachable_engine0: "reachable engine0"
  using engine0_constructed by (rule reachable.constructed)

lemma radar_then_ais_tracks:
  "fused_targets radar_then_ais = [(''R1'', track_R 0), (''F200100001'', track_F 1)]"
  by (simp add: radar_then_ais_def engine0_def add_radar_target_def fuse_radar_target_def
      add_ais_target_def find_matching_ais_def find_matching_radar_def radar_geo_def
      radar_to_geo_north radar1_def ais_positions haversine_distance_self Let_def
      FusedTarget_new_def track_R_def track_F_def py_or_def)
    (simp add: ais_near_def ais_at_def)

lemma ais_then_radar_state:
  "fused_targets ais_then_radar = [(''A200100001'', track_A 0), (''F200100001'', track_F 1)]"
  "matched_ais ais_then_radar = {''200100001''}"
  "ais_targets ais_then_radar = [(''200100001'', ais_near)]"
  "radar_targets ais_then_radar = [(''1'', radar1)]"
  "association_distance ais_then_radar = 100" "max_age ais_then_radar = 60"
  "radar_origin ais_then_radar = (0, 0)"
  by (simp_all add: ais_then_radar_def engine0_def add_radar_target_def fuse_radar_target_def
      add_ais_target_def fuse_ais_only_def find_matching_ais_def find_matching_radar_def
      radar_geo_def radar_to_geo_north radar1_def ais_positions haversine_distance_self Let_def
      FusedTarget_new_def track_A_def track_F_def py_or_def)
    (simp_all add: ais_near_def ais_at_def)

subsection \<open>Classification and confidence\<close>

lemma track_ok_classified: "track_ok (fid, t) \<Longrightarrow> classified t"
  by (auto simp: track_ok_def classified_def split: option.splits)

lemma track_ok_source:
  "track_ok (fid, t) \<Longrightarrow>
     (ft_source_type t = ''fused'' \<and> ft_confidence t = 9 / 10) \<or>
     (ft_source_type t = ''ais'' \<and> ft_confidence t = 8 / 10) \<or>
     (ft_source_type t = ''radar'' \<and> ft_confidence t = 7 / 10)"
  by (auto simp: track_ok_def split: option.splits)

lemma FusedTarget_update_classified: "classified (FusedTarget_update t0 radar ais now)"
  by (cases radar; cases ais) (simp_all add: FusedTarget_update_def classified_def Let_def)

lemma FusedTarget_update_source:
  "ft_source_type (FusedTarget_update t0 radar ais now) \<in> {''fused'', ''ais'', ''radar''}"
  by (cases radar; cases ais) (simp_all add: FusedTarget_update_def Let_def)

text \<open>
  C4.  In every state the engine reaches, each live track is classified \<^verbatim>\<open>fused\<close> exactly
  when it holds both contact references, its confidence is 0.9, 0.8 or 0.7 according to its
  classification \<^verbatim>\<open>fused\<close>, \<^verbatim>\<open>ais\<close> or \<^verbatim>\<open>radar\<close>, and so a fused track is more confident
  than an AIS-only track, which is more confident than a radar-only track.
  \<^verbatim>\<open>FusedTarget.update\<close> re-derives the same classification and confidence.
\<close>

theorem classification_and_confidence:
  "(reachable self \<longrightarrow>
      (\<forall>t \<in> set (map snd (fused_targets self)).
          classified t
        \<and> (ft_source_type t = ''fused'' \<and> ft_confidence t = 9 / 10
           \<or> ft_source_type t = ''ais'' \<and> ft_confidence t = 8 / 10
           \<or> ft_source_type t = ''radar'' \<and> ft_confidence t = 7 / 10))
      \<and> (\<forall>t \<in> set (map snd (fused_targets self)). \<forall>u \<in> set (map snd (fused_targets self)).
            (ft_source_type t = ''fused'' \<and> ft_source_type u = ''ais''
               \<longrightarrow> ft_confidence u < ft_confidence t)
          \<and> (ft_source_type t = ''ais'' \<and> ft_source_type u = ''radar''
               \<longrightarrow> ft_confidence u < ft_confidence t)))
   \<and> classified (FusedTarget_update t0 radar ais now)"
proof -
  have tracks: "classified t \<and> (ft_source_type t = ''fused'' \<and> ft_confidence t = 9 / 10
           \<or> ft_source_type t = ''ais'' \<and> ft_confidence t = 8 / 10
           \<or> ft_source_type t = ''radar'' \<and> ft_confidence t = 7 / 10)"
    if "reachable self" "t \<in> set (map snd (fused_targets self))" for t
  proof -
    from that(2) obtain fid where "(fid, t) \<in> set (fused_targets self)" by auto
    moreover have "list_all track_ok (fused_targets self)"
      using reachable_fusion_inv [OF that(1)] by (simp add: fusion_inv_def)
    ultimately have "track_ok (fid, t)" by (auto simp: list_all_iff)
    then show ?thesis using track_ok_classified track_ok_source by blast
  qed
  have order: "(ft_source_type t = ''fused'' \<and> ft_source_type u = ''ais''
               \<longrightarrow> ft_confidence u < ft_confidence t)
          \<and> (ft_source_type t = ''ais'' \<and> ft_source_type u = ''radar''
               \<longrightarrow> ft_confidence u < ft_confidence t)"
    if "reachable self" "t \<in> set (map snd (fused_targets self))"
      "u \<in> set (map snd (fused_targets self))" for t u
    using tracks [OF that(1) that(2)] tracks [OF that(1) that(3)] by auto
  show ?thesis
    using tracks order FusedTarget_update_classified by blast
qed

lemma three_tracks_tracks:
  "fused_targets three_tracks =
     [(''A200100001'', track_A 0), (''F200100001'', track_F 1), (''R1'', track_R 2)]"
proof -
  have eq: "three_tracks = add_radar_target ais_then_radar radar1 2"
    by (simp add: three_tracks_def ais_then_radar_def)
  show ?thesis
    unfolding eq
    by (simp add: add_radar_target_def fuse_radar_target_def find_matching_ais_def
        ais_then_radar_state radar_geo_def radar_to_geo_north radar1_def ais_positions
        FusedTarget_new_def track_R_def Let_def)
qed

theorem classification_and_confidence_witness:
  "reachable three_tracks
   \<and> map ft_source_type (map snd (fused_targets three_tracks)) = [''ais'', ''fused'', ''radar'']
   \<and> map ft_confidence (map snd (fused_targets three_tracks)) = [8 / 10, 9 / 10, 7 / 10]
   \<and> classified (track_F 1)
   \<and> classified (FusedTarget_update (track_R 0) None (Some ais_near) 5)"
proof -
  have r: "reachable three_tracks"
    unfolding three_tracks_def by (intro reachable_run_ops reachable_engine0)
  have src: "map ft_source_type (map snd (fused_targets three_tracks)) = [''ais'', ''fused'', ''radar'']"
    by (simp add: three_tracks_tracks track_A_def track_F_def track_R_def)
  have mem: "track_A 0 \<in> set (map snd (fused_targets three_tracks))"
    "track_F 1 \<in> set (map snd (fused_targets three_tracks))"
    "track_R 2 \<in> set (map snd (fused_targets three_tracks))"
    by (simp_all add: three_tracks_tracks)
  note inst = classification_and_confidence [of three_tracks "track_R 0" None "Some ais_near" 5]
  from inst r mem have
    "classified (track_F 1)"
    "ft_source_type (track_A 0) = ''fused'' \<and> ft_confidence (track_A 0) = 9 / 10
           \<or> ft_source_type (track_A 0) = ''ais'' \<and> ft_confidence (track_A 0) = 8 / 10
           \<or> ft_source_type (track_A 0) = ''radar'' \<and> ft_confidence (track_A 0) = 7 / 10"
    "ft_source_type (track_F 1) = ''fused'' \<and> ft_confidence (track_F 1) = 9 / 10
           \<or> ft_source_type (track_F 1) = ''ais'' \<and> ft_confidence (track_F 1) = 8 / 10
           \<or> ft_source_type (track_F 1) = ''radar'' \<and> ft_confidence (track_F 1) = 7 / 10"
    "ft_source_type (track_R 2) = ''fused'' \<and> ft_confidence (track_R 2) = 9 / 10
           \<or> ft_source_type (track_R 2) = ''ais'' \<and> ft_confidence (track_R 2) = 8 / 10
           \<or> ft_source_type (track_R 2) = ''radar'' \<and> ft_confidence (track_R 2) = 7 / 10"
    "classified (FusedTarget_update (track_R 0) None (Some ais_near) 5)"
    by blast+
  then show ?thesis
    using r src by (simp add: three_tracks_tracks)
qed


text \<open>
  An AIS contact that arrives before its radar contact gets the track \<^verbatim>\<open>A<mmsi>\<close>; the radar
  contact then creates \<^verbatim>\<open>F<mmsi>\<close>, and both live tracks reference the same MMSI.
\<close>

theorem mmsi_referenced_twice_counterexample:
  "map (\<lambda>(fid, t). (fid, ft_source_type t, map_option ais_mmsi (ft_ais_target t)))
       (fused_targets (run_ops engine0 [AddAIS ais_near 0, AddRadar radar1 1]))
     = [(''A200100001'', ''ais'', Some ''200100001''),
        (''F200100001'', ''fused'', Some ''200100001'')]"
  using ais_then_radar_state(1)
  by (simp add: ais_then_radar_def track_A_def track_F_def ais_positions)

text \<open>
  C3 (amended).  In every state the engine reaches, two live tracks of the same source
  classification never reference the same MMSI: an MMSI is referenced by at most one
  \<^verbatim>\<open>fused\<close> track and at most one \<^verbatim>\<open>ais\<close> track.
\<close>

theorem mmsi_exclusive_per_classification:
  "reachable self \<Longrightarrow>
     (\<forall>i < length (fused_targets self). \<forall>j < length (fused_targets self).
        ft_source_type (snd (fused_targets self ! i)) = ft_source_type (snd (fused_targets self ! j))
        \<and> map_option ais_mmsi (ft_ais_target (snd (fused_targets self ! i))) = Some mmsi
        \<and> map_option ais_mmsi (ft_ais_target (snd (fused_targets self ! j))) = Some mmsi
        \<longrightarrow> i = j)"
proof (intro allI impI)
  fix i j
  assume r: "reachable self"
    and i: "i < length (fused_targets self)" and j: "j < length (fused_targets self)"
    and h: "ft_source_type (snd (fused_targets self ! i)) = ft_source_type (snd (fused_targets self ! j))
        \<and> map_option ais_mmsi (ft_ais_target (snd (fused_targets self ! i))) = Some mmsi
        \<and> map_option ais_mmsi (ft_ais_target (snd (fused_targets self ! j))) = Some mmsi"
  let ?d = "fused_targets self"
  have inv: "distinct (map fst ?d)" "list_all track_ok ?d"
    using reachable_fusion_inv [OF r] by (simp_all add: fusion_inv_def)
  have oki: "track_ok (?d ! i)" and okj: "track_ok (?d ! j)"
    using inv(2) i j by (simp_all add: list_all_length)
  have key: "fst e = (if ft_source_type (snd e) = ''fused'' then ''F'' else ''A'') @ mmsi"
    if "track_ok e" "map_option ais_mmsi (ft_ais_target (snd e)) = Some mmsi" for e
    using that by (cases e) (auto simp: track_ok_def split: option.splits)
  have "fst (?d ! i) = fst (?d ! j)"
    using key [OF oki] key [OF okj] h by simp
  then have "map fst ?d ! i = map fst ?d ! j"
    using i j by simp
  moreover have "i < length (map fst ?d)" "j < length (map fst ?d)"
    using i j by simp_all
  ultimately show "i = j"
    using inv(1) by (metis nth_eq_iff_index_eq)
qed

theorem mmsi_exclusive_per_classification_witness:
  "reachable three_tracks
   \<and> map (\<lambda>e. map_option ais_mmsi (ft_ais_target (snd e))) (fused_targets three_tracks)
       = [Some ''200100001'', Some ''200100001'', None]
   \<and> ft_source_type (snd (fused_targets three_tracks ! 0))
       \<noteq> ft_source_type (snd (fused_targets three_tracks ! 1))"
proof -
  have r: "reachable three_tracks"
    unfolding three_tracks_def by (intro reachable_run_ops reachable_engine0)
  have refs: "map (\<lambda>e. map_option ais_mmsi (ft_ais_target (snd e))) (fused_targets three_tracks)
       = [Some ''200100001'', Some ''200100001'', None]"
    by (simp add: three_tracks_tracks track_A_def track_F_def track_R_def ais_positions)
  have "ft_source_type (snd (fused_targets three_tracks ! 0))
          = ft_source_type (snd (fused_targets three_tracks ! 1)) \<Longrightarrow> False"
  proof -
    assume same: "ft_source_type (snd (fused_targets three_tracks ! 0))
          = ft_source_type (snd (fused_targets three_tracks ! 1))"
    have "(0::nat) = 1"
      using mmsi_exclusive_per_classification [OF r, of "''200100001''"] same
      by (elim allE [of _ 0] allE [of _ 1])
        (simp add: three_tracks_tracks track_A_def track_F_def ais_positions)
    then show False by simp
  qed
  with r refs show ?thesis by blast
qed

subsection \<open>Eviction\<close>

lemma delete_expired_filter:
  assumes "distinct (map fst d)"
  shows "delete_loop (expired_loop self now d) d
           = filter (\<lambda>e. \<not> now - ft_timestamp (snd e) > max_age self) d"
proof -
  have "(fst e \<notin> set (expired_loop self now d)) = (\<not> now - ft_timestamp (snd e) > max_age self)"
    if "e \<in> set d" for e
  proof -
    obtain fid t where e: "e = (fid, t)" by (cases e)
    have same: "t' = t" if "(fid, t') \<in> set d" for t'
      using eq_key_imp_eq_value [OF assms that] \<open>e \<in> set d\<close> e by simp
    show ?thesis
    proof
      assume "fst e \<notin> set (expired_loop self now d)"
      then show "\<not> now - ft_timestamp (snd e) > max_age self"
        using \<open>e \<in> set d\<close> e unfolding expired_loop_set by auto
    next
      assume n: "\<not> now - ft_timestamp (snd e) > max_age self"
      show "fst e \<notin> set (expired_loop self now d)"
      proof
        assume "fst e \<in> set (expired_loop self now d)"
        then obtain t' where "(fid, t') \<in> set d" "now - ft_timestamp t' > max_age self"
          unfolding expired_loop_set using e by auto
        then show False using same n e by auto
      qed
    qed
  qed
  then show ?thesis
    unfolding delete_loop_filter by (intro filter_cong) auto
qed

lemma keys_update: "fst ` set al \<subseteq> fst ` set (AList.update k v al)"
  unfolding dom_update by blast

lemma keys_fuse_radar_target:
  "fst ` set (fused_targets self) \<subseteq> fst ` set (fused_targets (fuse_radar_target self radar now))"
proof (cases "radar_geo self radar")
  case (Pair lat lon)
  then show ?thesis
    by (cases "find_matching_ais self lat lon")
      (simp_all add: fuse_radar_target_def Let_def keys_update)
qed

lemma keys_fuse_ais_only:
  "fst ` set (fused_targets self) \<subseteq> fst ` set (fused_targets (fuse_ais_only self ais now))"
  by (cases "find_matching_radar self (ais_lat ais) (ais_lon ais)")
    (simp_all add: fuse_ais_only_def Let_def keys_update)

lemma keys_add_ais_target:
  "fst ` set (fused_targets self) \<subseteq> fst ` set (fused_targets (add_ais_target self ais now))"
proof -
  let ?s = "self\<lparr> ais_targets := AList.update (ais_mmsi ais) ais (ais_targets self) \<rparr>"
  show ?thesis
  proof (cases "find_matching_radar ?s (ais_lat ais) (ais_lon ais)")
    case None
    then show ?thesis
      using keys_fuse_ais_only [of ?s ais now] by (simp add: add_ais_target_def Let_def)
  next
    case (Some r)
    then show ?thesis
      by (cases "radar_geo ?s r") (simp add: add_ais_target_def Let_def keys_update)
  qed
qed

text \<open>
  C5.  \<^verbatim>\<open>get_fused_targets\<close> at time \<open>now\<close> keeps, in order, exactly the tracks whose age
  \<open>now - timestamp\<close> does not exceed \<^verbatim>\<open>max_age\<close>, in the live set and in the returned list
  alike; a track is dropped exactly when its age is strictly greater.  The other operations
  remove no identity from the live set.  The hypothesis is the invariant of a dict, whose keys
  are distinct; it holds in every state the engine reaches (\<open>reachable_fusion_inv\<close>).
\<close>

theorem eviction_only_at_read:
  "distinct (map fst (fused_targets self)) \<Longrightarrow>
     fused_targets (fst (get_fused_targets self now))
       = filter (\<lambda>e. \<not> now - ft_timestamp (snd e) > max_age self) (fused_targets self)
     \<and> snd (get_fused_targets self now)
       = map snd (filter (\<lambda>e. \<not> now - ft_timestamp (snd e) > max_age self) (fused_targets self))
     \<and> fst ` set (fused_targets self) \<subseteq> fst ` set (fused_targets (add_radar_target self radar t))
     \<and> fst ` set (fused_targets self) \<subseteq> fst ` set (fused_targets (add_ais_target self ais t))
     \<and> fused_targets (set_radar_origin self lon lat) = fused_targets self"
proof -
  assume d: "distinct (map fst (fused_targets self))"
  have "fst ` set (fused_targets self) \<subseteq> fst ` set (fused_targets (add_radar_target self radar t))"
    using keys_fuse_radar_target
      [of "self\<lparr> radar_targets := AList.update (rt_target_id radar) radar (radar_targets self) \<rparr>" radar t]
    by (simp add: add_radar_target_def)
  then show ?thesis
    using delete_expired_filter [OF d, of self now] keys_add_ais_target [of self ais t]
    by (simp add: get_fused_targets_def Let_def set_radar_origin_def)
qed

theorem eviction_only_at_read_witness:
  "distinct (map fst (fused_targets ais_then_radar))
   \<and> map ft_timestamp (map snd (fused_targets ais_then_radar)) = [0, 1]
   \<and> max_age ais_then_radar = 60
   \<and> map ft_fused_id (snd (get_fused_targets ais_then_radar 60)) = [''A200100001'', ''F200100001'']
   \<and> map ft_fused_id (snd (get_fused_targets ais_then_radar 61)) = [''F200100001'']
   \<and> map fst (fused_targets (fst (get_fused_targets ais_then_radar 61))) = [''F200100001'']
   \<and> map ft_fused_id (snd (get_fused_targets ais_then_radar (61 + 1 / 1000))) = []"
proof -
  have d: "distinct (map fst (fused_targets ais_then_radar))"
    by (simp add: ais_then_radar_state)
  show ?thesis
    using eviction_only_at_read [OF d, of 60] eviction_only_at_read [OF d, of 61]
      eviction_only_at_read [OF d, of "61 + 1 / 1000"]
    by (simp add: ais_then_radar_state) (simp add: track_A_def track_F_def)
qed

subsection \<open>Arrival order\<close>

lemma radar_then_ais_state:
  "matched_ais radar_then_ais = {''200100001''}"
  "association_distance radar_then_ais = 100" "max_age radar_then_ais = 60"
  "radar_origin radar_then_ais = (0, 0)"
  by (simp_all add: radar_then_ais_def engine0_def add_radar_target_def fuse_radar_target_def
      add_ais_target_def find_matching_ais_def find_matching_radar_def radar_geo_def
      radar_to_geo_north radar1_def ais_positions haversine_distance_self Let_def)

text \<open>
  A radar contact and an AIS contact at the same position, fed to a fresh engine: radar
  first leaves \<^verbatim>\<open>R1\<close> beside \<^verbatim>\<open>F200100001\<close>, AIS first leaves \<^verbatim>\<open>A200100001\<close> beside it.  The
  two final track sets differ, and the radar-only track is still returned by a read.
\<close>

theorem order_dependent_tracks_counterexample:
  "map fst (fused_targets (run_ops engine0 [AddRadar radar1 0, AddAIS ais_near 1]))
     = [''R1'', ''F200100001'']
   \<and> map fst (fused_targets (run_ops engine0 [AddAIS ais_near 0, AddRadar radar1 1]))
     = [''A200100001'', ''F200100001'']
   \<and> map ft_fused_id (snd (get_fused_targets
        (run_ops engine0 [AddRadar radar1 0, AddAIS ais_near 1]) 1)) = [''R1'', ''F200100001'']
   \<and> haversine_distance (fst (radar_geo engine0 radar1)) (snd (radar_geo engine0 radar1))
        (ais_lat ais_near) (ais_lon ais_near) < association_distance engine0"
proof -
  have a: "map fst (fused_targets radar_then_ais) = [''R1'', ''F200100001'']"
    by (simp add: radar_then_ais_tracks)
  have b: "map fst (fused_targets ais_then_radar) = [''A200100001'', ''F200100001'']"
    by (simp add: ais_then_radar_state)
  have c: "map ft_fused_id (snd (get_fused_targets radar_then_ais 1)) = [''R1'', ''F200100001'']"
    by (simp add: get_fused_targets_def Let_def radar_then_ais_tracks radar_then_ais_state
        track_R_def track_F_def)
  have d: "haversine_distance (fst (radar_geo engine0 radar1)) (snd (radar_geo engine0 radar1))
        (ais_lat ais_near) (ais_lon ais_near) < association_distance engine0"
    by (simp add: radar1_geo ais_positions haversine_distance_self) (simp add: engine0_def)
  from a b c d show ?thesis
    unfolding radar_then_ais_def ais_then_radar_def by blast
qed

text \<open>
  C2 (amended).  On an engine that holds no contact and no track, a radar contact and an
  AIS contact inside the gate of each other produce, in either order, the same track
  \<^verbatim>\<open>F<mmsi>\<close>: classified \<^verbatim>\<open>fused\<close>, holding both contacts, stamped with the time of the
  second call.  The track of the contact that came first stays in the live set beside it:
  \<^verbatim>\<open>R<radar_id>\<close> when the radar contact was first, \<^verbatim>\<open>A<mmsi>\<close> when the AIS contact was.
\<close>

theorem fused_identity_in_either_order:
  assumes empty: "radar_targets self = []" "ais_targets self = []" "fused_targets self = []"
      "matched_ais self = {}"
    and gate: "haversine_distance (fst (radar_geo self radar)) (snd (radar_geo self radar))
                 (ais_lat ais) (ais_lon ais) < association_distance self"
  shows "map fst (fused_targets (add_ais_target (add_radar_target self radar t1) ais t2))
           = [''R'' @ rt_target_id radar, ''F'' @ ais_mmsi ais]
       \<and> map fst (fused_targets (add_radar_target (add_ais_target self ais t1) radar t2))
           = [''A'' @ ais_mmsi ais, ''F'' @ ais_mmsi ais]
       \<and> map_of (fused_targets (add_ais_target (add_radar_target self radar t1) ais t2))
             (''F'' @ ais_mmsi ais)
           = map_of (fused_targets (add_radar_target (add_ais_target self ais t1) radar t2))
               (''F'' @ ais_mmsi ais)
       \<and> (\<exists>f. map_of (fused_targets (add_radar_target (add_ais_target self ais t1) radar t2))
                 (''F'' @ ais_mmsi ais) = Some f
              \<and> ft_fused_id f = ''F'' @ ais_mmsi ais \<and> ft_source_type f = ''fused''
              \<and> ft_radar_target f = Some radar \<and> ft_ais_target f = Some ais
              \<and> ft_timestamp f = t2)"
proof -
  obtain lat lon where geo: "radar_to_geo (rt_distance_nm radar) (rt_bearing_deg radar)
      (snd (radar_origin self)) (fst (radar_origin self)) = (lat, lon)"
    by (cases "radar_to_geo (rt_distance_nm radar) (rt_bearing_deg radar)
      (snd (radar_origin self)) (fst (radar_origin self))")
  have g1: "haversine_distance lat lon (ais_lat ais) (ais_lon ais) < association_distance self"
    using gate geo by (simp add: radar_geo_def)
  then have g2: "haversine_distance (ais_lat ais) (ais_lon ais) lat lon < association_distance self"
    by (simp add: haversine_distance_sym)
  define F where "F = (FusedTarget_new (''F'' @ ais_mmsi ais) t2)
       \<lparr> ft_radar_target := Some radar, ft_ais_target := Some ais,
         ft_source_type := ''fused'', ft_lat := lat, ft_lon := lon,
         ft_speed_knots := py_or (ais_speed_knots ais) (rt_speed_knots radar),
         ft_course_deg := py_or (ais_course_deg ais) (rt_course_deg radar),
         ft_confidence := 9 / 10 \<rparr>"
  let ?sr = "add_radar_target self radar t1"
  have sr: "radar_targets ?sr = [(rt_target_id radar, radar)]" "ais_targets ?sr = []"
    "matched_ais ?sr = {}" "radar_origin ?sr = radar_origin self"
    "association_distance ?sr = association_distance self"
    "map fst (fused_targets ?sr) = [''R'' @ rt_target_id radar]"
    by (simp_all add: add_radar_target_def fuse_radar_target_def find_matching_ais_def
        radar_geo_def geo empty Let_def)
  obtain e where e: "fused_targets ?sr = [(''R'' @ rt_target_id radar, e)]"
    using sr(6) by (cases "fused_targets ?sr") auto
  have one: "fused_targets (add_ais_target ?sr ais t2) = [(''R'' @ rt_target_id radar, e), (''F'' @ ais_mmsi ais, F)]"
    by (simp add: add_ais_target_def find_matching_radar_def radar_geo_def sr e geo g2 Let_def F_def)
  let ?sa = "add_ais_target self ais t1"
  have sa: "radar_targets ?sa = []" "ais_targets ?sa = [(ais_mmsi ais, ais)]"
    "matched_ais ?sa = {}" "radar_origin ?sa = radar_origin self"
    "association_distance ?sa = association_distance self"
    "map fst (fused_targets ?sa) = [''A'' @ ais_mmsi ais]"
    by (simp_all add: add_ais_target_def fuse_ais_only_def find_matching_radar_def empty Let_def)
  obtain e' where e': "fused_targets ?sa = [(''A'' @ ais_mmsi ais, e')]"
    using sa(6) by (cases "fused_targets ?sa") auto
  have two: "fused_targets (add_radar_target ?sa radar t2) = [(''A'' @ ais_mmsi ais, e'), (''F'' @ ais_mmsi ais, F)]"
    by (simp add: add_radar_target_def fuse_radar_target_def find_matching_ais_def radar_geo_def
        sa e' geo g1 Let_def F_def)
  show ?thesis
    unfolding one two by (simp add: F_def FusedTarget_new_def)
qed

theorem fused_identity_in_either_order_witness:
  "haversine_distance (fst (radar_geo engine0 radar1)) (snd (radar_geo engine0 radar1))
      (ais_lat ais_near) (ais_lon ais_near) < association_distance engine0
   \<and> map fst (fused_targets (add_ais_target (add_radar_target engine0 radar1 0) ais_near 1))
       = [''R1'', ''F200100001'']
   \<and> map fst (fused_targets (add_radar_target (add_ais_target engine0 ais_near 0) radar1 1))
       = [''A200100001'', ''F200100001'']
   \<and> map_of (fused_targets (add_ais_target (add_radar_target engine0 radar1 0) ais_near 1))
         ''F200100001''
       = map_of (fused_targets (add_radar_target (add_ais_target engine0 ais_near 0) radar1 1))
           ''F200100001''"
proof -
  have e: "radar_targets engine0 = []" "ais_targets engine0 = []" "fused_targets engine0 = []"
    "matched_ais engine0 = {}"
    by (simp_all add: engine0_def)
  have g: "haversine_distance (fst (radar_geo engine0 radar1)) (snd (radar_geo engine0 radar1))
      (ais_lat ais_near) (ais_lon ais_near) < association_distance engine0"
    by (simp add: radar1_geo ais_positions haversine_distance_self) (simp add: engine0_def)
  have ids: "rt_target_id radar1 = ''1''" by (simp add: radar1_def)
  show ?thesis
    using fused_identity_in_either_order [OF e g, of 0 1] g
    by (simp add: ids ais_positions)
qed

subsection \<open>The estimators and the registry\<close>

lemma eye_4: "eye 4 = [[1, 0, 0, 0], [0, 1, 0, 0], [0, 0, 1, 0], [0, 0, 0, 1]]"
  by (simp add: eye_def upt_rec numeral_eq_Suc)

lemma eye_2: "eye 2 = [[1, 0], [0, 1]]"
  by (simp add: eye_def upt_rec numeral_eq_Suc)

lemma zeros_4_1: "zeros 4 (Suc 0) = [[0], [0], [0], [0]]"
  unfolding zeros_def by (simp add: numeral_eq_Suc)

lemma kf_fresh_constructed: "KalmanFilter_init 1 (1 / 10) 1 = Inr kf_fresh"
  by (simp add: KalmanFilter_init_def kf_fresh_def eye_4 eye_2 mat_scale_def zeros_4_1)

lemma shape_4x1:
  assumes "state_shape_ok self"
  obtains a b c d where "kf_state self = [[a], [b], [c], [d]]"
proof -
  from assms have len: "length (kf_state self) = 4"
    and rows: "\<forall>row \<in> set (kf_state self). length row = 1"
    by (simp_all add: state_shape_ok_def list_all_iff)
  from len obtain r0 r1 r2 r3 where s: "kf_state self = [r0, r1, r2, r3]"
    by (auto simp: numeral_eq_Suc length_Suc_conv)
  from rows s have "length r0 = 1" "length r1 = 1" "length r2 = 1" "length r3 = 1"
    by simp_all
  then obtain a b c d where "r0 = [a]" "r1 = [b]" "r2 = [c]" "r3 = [d]"
    by (auto simp: length_Suc_conv)
  with s that show thesis by blast
qed

lemma initialize_state:
  assumes "state_shape_ok self"
  shows "kf_state (initialize self x y) = [[x], [y], [0], [0]]"
proof -
  from assms obtain a b c d where "kf_state self = [[a], [b], [c], [d]]"
    by (rule shape_4x1)
  then show ?thesis
    by (simp add: initialize_def set_cell_def)
qed

lemma length_matmul: "length (matmul A B) = length A"
  by (simp add: matmul_def)

lemma row_length_matmul: "row \<in> set (matmul A B) \<Longrightarrow> length row = length (transpose B)"
  by (auto simp: matmul_def)

lemma length_mat_add: "length (mat_add A B) = min (length A) (length B)"
  by (simp add: mat_add_def)

lemma length_mat_sub: "length (mat_sub A B) = min (length A) (length B)"
  by (simp add: mat_sub_def)

lemma length_eye: "length (eye n) = n"
  by (simp add: eye_def)

lemma length_transpose_column:
  "A \<noteq> [] \<Longrightarrow> list_all (\<lambda>row. length row = 1) A \<Longrightarrow> length (transpose A) = 1"
proof -
  assume ne: "A \<noteq> []" and rows: "list_all (\<lambda>row. length row = 1) A"
  have "foldr (\<lambda>xs. max (length xs)) A 0 = (if A = [] then 0 else 1)"
    using rows by (induction A) auto
  then show ?thesis using ne by (simp add: length_transpose)
qed

lemma column_matmul:
  assumes "B \<noteq> []" "list_all (\<lambda>row. length row = 1) B"
  shows "list_all (\<lambda>row. length row = 1) (matmul A B)"
  using row_length_matmul [of _ A B] length_transpose_column [OF assms]
  by (simp add: list_all_iff)

lemma column_mat_add:
  assumes "list_all (\<lambda>row. length row = 1) A" "list_all (\<lambda>row. length row = 1) B"
  shows "list_all (\<lambda>row. length row = 1) (mat_add A B)"
  using assms by (auto simp: mat_add_def list_all_length)

lemma column_mat_sub:
  assumes "list_all (\<lambda>row. length row = 1) A" "list_all (\<lambda>row. length row = 1) B"
  shows "list_all (\<lambda>row. length row = 1) (mat_sub A B)"
  using assms by (auto simp: mat_sub_def list_all_length)

lemma kf_shapes_constructed: "KalmanFilter_init dt q r = Inr kf \<Longrightarrow> kf_shapes kf"
  by (auto simp: KalmanFilter_init_def kf_shapes_def state_shape_ok_def zeros_def
      mat_scale_def length_eye list_all_iff)

lemma kf_shapes_initialize: "kf_shapes kf \<Longrightarrow> kf_shapes (initialize kf x y)"
proof -
  assume k: "kf_shapes kf"
  then have "state_shape_ok kf" by (simp add: kf_shapes_def)
  then have "kf_state (initialize kf x y) = [[x], [y], [0], [0]]"
    by (rule initialize_state)
  then have "state_shape_ok (initialize kf x y)"
    by (simp add: state_shape_ok_def)
  moreover have "kf_P (initialize kf x y) = mat_scale (eye 4) 1"
    "kf_F (initialize kf x y) = kf_F kf" "kf_H (initialize kf x y) = kf_H kf"
    "kf_Q (initialize kf x y) = kf_Q kf"
    by (simp_all add: initialize_def)
  ultimately show ?thesis
    using k by (simp add: kf_shapes_def mat_scale_def length_eye)
qed

lemma state_nonempty_column:
  "state_shape_ok kf \<Longrightarrow> kf_state kf \<noteq> [] \<and> list_all (\<lambda>row. length row = 1) (kf_state kf)"
  by (auto simp: state_shape_ok_def)

lemma kf_shapes_predict: "kf_shapes kf \<Longrightarrow> kf_shapes (fst (predict kf))"
proof -
  assume k: "kf_shapes kf"
  then have s: "kf_state kf \<noteq> []" "list_all (\<lambda>row. length row = 1) (kf_state kf)"
    using state_nonempty_column by (simp_all add: kf_shapes_def)
  have "list_all (\<lambda>row. length row = 1) (matmul (kf_F kf) (kf_state kf))"
    using s by (rule column_matmul)
  then show ?thesis
    using k
    by (simp add: kf_shapes_def predict_def Let_def state_shape_ok_def length_matmul
        length_mat_add)
qed

lemma kf_shapes_update:
  assumes k: "kf_shapes kf" and u: "update kf x y = Inr (kf', pos)"
  shows "kf_shapes kf'"
proof (cases "kf_initialized kf")
  case False
  then have "kf' = initialize kf x y" using u by (simp add: update_def)
  then show ?thesis using k by (simp add: kf_shapes_initialize)
next
  case True
  let ?S = "mat_add (matmul (matmul (kf_H kf) (kf_P kf)) (transpose (kf_H kf))) (kf_R kf)"
  from u True obtain S_inv where inv: "linalg_inv ?S = Inr S_inv"
    by (cases "linalg_inv ?S") (simp_all add: update_def Let_def)
  let ?y = "mat_sub [[x], [y]] (matmul (kf_H kf) (kf_state kf))"
  let ?K = "matmul (matmul (kf_P kf) (transpose (kf_H kf))) S_inv"
  have kf': "kf' = kf\<lparr> kf_state := mat_add (kf_state kf) (matmul ?K ?y),
                      kf_P := matmul (mat_sub (eye 4) (matmul ?K (kf_H kf))) (kf_P kf) \<rparr>"
    using u True inv by (simp add: update_def Let_def)
  have s: "kf_state kf \<noteq> []" "list_all (\<lambda>row. length row = 1) (kf_state kf)"
    using k state_nonempty_column by (simp_all add: kf_shapes_def)
  have zp: "list_all (\<lambda>row. length row = 1) (matmul (kf_H kf) (kf_state kf))"
    using s by (rule column_matmul)
  have "length ?y = 2"
    using k by (simp add: length_mat_sub length_matmul kf_shapes_def)
  then have yne: "?y \<noteq> []" by auto
  have ycol: "list_all (\<lambda>row. length row = 1) ?y"
    using zp by (intro column_mat_sub) simp_all
  have "list_all (\<lambda>row. length row = 1) (matmul ?K ?y)"
    using yne ycol by (rule column_matmul)
  then have col: "list_all (\<lambda>row. length row = 1) (mat_add (kf_state kf) (matmul ?K ?y))"
    using s(2) by (intro column_mat_add)
  show ?thesis
    using k col
    by (simp add: kf' kf_shapes_def state_shape_ok_def length_mat_add length_mat_sub
        length_matmul length_eye)
qed

lemma kf_instance_shapes: "kf_instance kf \<Longrightarrow> kf_shapes kf"
  by (induction rule: kf_instance.induct)
    (auto intro: kf_shapes_constructed kf_shapes_initialize kf_shapes_predict kf_shapes_update)

lemma kf_instance_state_shape: "kf_instance kf \<Longrightarrow> state_shape_ok kf"
  using kf_instance_shapes by (simp add: kf_shapes_def)

text \<open>
  C7.  On an estimator instance that is not yet initialized, \<^verbatim>\<open>update\<close> returns the raw
  measurement \<open>(x, y)\<close> and leaves the instance initialized with state \<open>(x, y, 0, 0)\<close>; so
  does \<^verbatim>\<open>process\<close> on a tracker that is not yet initialized.
\<close>

theorem first_measurement_returned_unchanged:
  "(kf_instance self \<and> \<not> kf_initialized self \<longrightarrow>
      update self x y = Inr (initialize self x y, (x, y))
      \<and> kf_state (initialize self x y) = [[x], [y], [0], [0]]
      \<and> kf_initialized (initialize self x y))
   \<and> (\<not> kt_init tracker \<longrightarrow>
        (\<exists>tracker'. process tracker x y = Inr (tracker', (x, y))
           \<and> kt_x tracker' = [[x], [y], [0], [0]] \<and> kt_init tracker'))"
  using kf_instance_state_shape [of self]
  by (auto simp: update_def process_def initialize_state) (simp add: initialize_def)

theorem first_measurement_returned_unchanged_witness:
  "KalmanFilter_init 1 (1 / 10) 1 = Inr kf_fresh
   \<and> kf_instance kf_fresh \<and> \<not> kf_initialized kf_fresh
   \<and> update kf_fresh 3 4 = Inr (initialize kf_fresh 3 4, (3, 4))
   \<and> kf_state (initialize kf_fresh 3 4) = [[3], [4], [0], [0]]
   \<and> \<not> kt_init (KFTracker_init 1 (1 / 10) 1)
   \<and> map_sum id snd (process (KFTracker_init 1 (1 / 10) 1) 3 4) = Inr (3, 4)"
proof -
  have i: "kf_instance kf_fresh"
    using kf_fresh_constructed by (rule kf_instance.constructed_kf)
  have k: "\<not> kf_initialized kf_fresh"
    by (simp add: kf_fresh_def)
  have t: "\<not> kt_init (KFTracker_init 1 (1 / 10) 1)"
    by (simp add: KFTracker_init_def)
  from first_measurement_returned_unchanged
    [of kf_fresh 3 4 "KFTracker_init 1 (1 / 10) 1"] i k t
  have "update kf_fresh 3 4 = Inr (initialize kf_fresh 3 4, (3, 4))"
    "kf_state (initialize kf_fresh 3 4) = [[3], [4], [0], [0]]"
    "\<exists>tracker'. process (KFTracker_init 1 (1 / 10) 1) 3 4 = Inr (tracker', (3, 4))"
    by blast+
  then show ?thesis
    using i k t kf_fresh_constructed by auto
qed

text \<open>
  C8.  For an identity that is not in the registry, \<^verbatim>\<open>predict_target\<close> returns \<^verbatim>\<open>None\<close> and
  leaves the registry as it is (no estimator is created), and \<^verbatim>\<open>remove_target\<close> leaves the
  registry as it is.  Neither has an error result.
\<close>

theorem absent_identity_no_op:
  "target_id \<notin> fst ` set (filters self) \<Longrightarrow>
     predict_target self target_id = (self, None) \<and> remove_target self target_id = self"
proof -
  assume a: "target_id \<notin> fst ` set (filters self)"
  then have "map_of (filters self) target_id = None"
    by (simp add: map_of_eq_None_iff)
  then show ?thesis
    using a by (simp add: predict_target_def remove_target_def)
qed

lemma registry1_added: "add_target MultiTargetKalmanFilter_init ''T1'' 3 4 (1 / 10) 1 = Inr registry1"
  by (simp add: add_target_def kf_fresh_constructed MultiTargetKalmanFilter_init_def
      registry1_def)

theorem absent_identity_no_op_witness:
  "add_target MultiTargetKalmanFilter_init ''T1'' 3 4 (1 / 10) 1 = Inr registry1
   \<and> ''T2'' \<notin> fst ` set (filters registry1)
   \<and> predict_target registry1 ''T2'' = (registry1, None)
   \<and> remove_target registry1 ''T2'' = registry1
   \<and> filters (remove_target registry1 ''T1'') = []"
proof -
  have a: "''T2'' \<notin> fst ` set (filters registry1)"
    by (simp add: registry1_def)
  have "filters (remove_target registry1 ''T1'') = []"
    by (simp add: remove_target_def registry1_def)
  then show ?thesis
    using absent_identity_no_op [OF a] a registry1_added by simp
qed

text \<open>
  Construction with a measurement noise of 0 or -1, or with a gating distance of -5 m,
  succeeds and stores the value; the validator's fusion check records nothing for it.
\<close>

theorem invalid_configuration_accepted_counterexample:
  "map_sum id kf_measurement_noise (KalmanFilter_init 1 (1 / 10) 0) = Inr 0
   \<and> map_sum id kf_R (KalmanFilter_init 1 (1 / 10) (- 1)) = Inr [[- 1, 0], [0, - 1]]
   \<and> map_sum id association_distance (TargetFusion_init bad_config) = Inr (- 5)
   \<and> validate_fusion bad_config \<lparr> cv_errors = [], cv_warnings = [] \<rparr>
        = \<lparr> cv_errors = [], cv_warnings = [] \<rparr>"
  by (simp add: KalmanFilter_init_def TargetFusion_init_def bad_config_def dict_get_def
      validate_fusion_def eye_2 mat_scale_def)

text \<open>
  C9 (amended).  Construction validates nothing: \<^verbatim>\<open>KalmanFilter.__init__\<close> succeeds for every
  measurement-noise value and stores it, \<^verbatim>\<open>TargetFusion.__init__\<close> succeeds for every gating
  distance and stores it, and \<^verbatim>\<open>_validate_fusion\<close> adds no error whatever the configuration
  holds.
\<close>

theorem construction_never_fails:
  "(\<exists>kf. KalmanFilter_init dt process_noise measurement_noise = Inr kf
        \<and> kf_measurement_noise kf = measurement_noise
        \<and> kf_R kf = [[measurement_noise, 0], [0, measurement_noise]])
   \<and> (\<exists>engine. TargetFusion_init cfg = Inr engine
        \<and> association_distance engine = dict_get (cfg_association_distance_m cfg) 100)
   \<and> cv_errors (validate_fusion cfg validator) = cv_errors validator"
  by (simp add: KalmanFilter_init_def TargetFusion_init_def validate_fusion_def eye_2
      mat_scale_def Let_def)

theorem construction_never_fails_witness:
  "(\<exists>kf. KalmanFilter_init 1 (1 / 10) (- 1) = Inr kf \<and> kf_measurement_noise kf = - 1)
   \<and> (\<exists>engine. TargetFusion_init bad_config = Inr engine \<and> association_distance engine = - 5)
   \<and> cv_errors (validate_fusion bad_config \<lparr> cv_errors = [], cv_warnings = [] \<rparr>) = []"
  using construction_never_fails [of 1 "1 / 10" "- 1" bad_config "\<lparr> cv_errors = [], cv_warnings = [] \<rparr>"]
  by (auto simp: bad_config_def dict_get_def)

end
